theory Spec2Isabelle
  imports Main "HOL-Library.Sublist" "HOL-Library.AList"
begin

section \<open>Python strings\<close>

text \<open>
  A Python \<open>str\<close> is a sequence of Unicode code points, so a string is a list of
  natural numbers and \<open>len\<close> is \<open>length\<close>. The ASCII literals of the source are
  written with \<open>ustr\<close>.
\<close>

type_synonym ustring = "nat list"

definition ustr :: "string \<Rightarrow> ustring" where
  "ustr s = map of_char s"

text \<open>
  \<open>str.isspace\<close>, \<open>str.isalpha\<close>, \<open>str.isdigit\<close>, \<open>str.islower\<close>,
  \<open>str.isupper\<close> and \<open>str.upper\<close> are built-ins of the interpreter and read its
  character database. The whitespace characters are few and are all listed. For
  the other properties the code points below 256 (ASCII and Latin-1, the ranges
  the source itself tests with \<open>ord(char) < 128\<close> and \<open>ord(char) < 256\<close>) are
  written out as CPython classifies them, and the tables for the rest of Unicode
  are a parameter, the record \<open>ucd\<close>.
\<close>

record ucd =
  alpha_hi :: "nat \<Rightarrow> bool"
  digit_hi :: "nat \<Rightarrow> bool"
  decimal_hi :: "nat \<Rightarrow> bool"
  lower_hi :: "nat \<Rightarrow> bool"
  upper_hi :: "nat \<Rightarrow> bool"
  upper_map_hi :: "nat \<Rightarrow> ustring"

definition isspace :: "nat \<Rightarrow> bool" where
  "isspace c \<longleftrightarrow>
     (9 \<le> c \<and> c \<le> 13) \<or> (28 \<le> c \<and> c \<le> 32) \<or> c = 0x85 \<or> c = 0xA0 \<or> c = 0x1680 \<or>
     (0x2000 \<le> c \<and> c \<le> 0x200A) \<or> c = 0x2028 \<or> c = 0x2029 \<or> c = 0x202F \<or>
     c = 0x205F \<or> c = 0x3000"

definition is_ascii_upper :: "nat \<Rightarrow> bool" where
  "is_ascii_upper c \<longleftrightarrow> 65 \<le> c \<and> c \<le> 90"

definition is_ascii_lower :: "nat \<Rightarrow> bool" where
  "is_ascii_lower c \<longleftrightarrow> 97 \<le> c \<and> c \<le> 122"

definition is_ascii_digit :: "nat \<Rightarrow> bool" where
  "is_ascii_digit c \<longleftrightarrow> 48 \<le> c \<and> c \<le> 57"

definition char_isupper :: "ucd \<Rightarrow> nat \<Rightarrow> bool" where
  "char_isupper U c \<longleftrightarrow>
     (if c < 256 then is_ascii_upper c \<or> (0xC0 \<le> c \<and> c \<le> 0xDE \<and> c \<noteq> 0xD7)
      else upper_hi U c)"

text \<open>Lower-case or title-case: the characters that make \<open>str.isupper\<close> false.\<close>

definition char_islower :: "ucd \<Rightarrow> nat \<Rightarrow> bool" where
  "char_islower U c \<longleftrightarrow>
     (if c < 256 then is_ascii_lower c \<or> c = 0xAA \<or> c = 0xB5 \<or> c = 0xBA \<or>
                      (0xDF \<le> c \<and> c \<noteq> 0xF7)
      else lower_hi U c)"

definition char_isalpha :: "ucd \<Rightarrow> nat \<Rightarrow> bool" where
  "char_isalpha U c \<longleftrightarrow>
     (if c < 256 then is_ascii_upper c \<or> is_ascii_lower c \<or> c = 0xAA \<or> c = 0xB5 \<or> c = 0xBA \<or>
                      (0xC0 \<le> c \<and> c \<noteq> 0xD7 \<and> c \<noteq> 0xF7)
      else alpha_hi U c)"

definition char_isdigit :: "ucd \<Rightarrow> nat \<Rightarrow> bool" where
  "char_isdigit U c \<longleftrightarrow>
     (if c < 256 then is_ascii_digit c \<or> c = 0xB2 \<or> c = 0xB3 \<or> c = 0xB9
      else digit_hi U c)"

text \<open>The class \<open>\d\<close> of the \<open>re\<close> module on a \<open>str\<close> pattern: the decimal digits.\<close>

definition re_digit :: "ucd \<Rightarrow> nat \<Rightarrow> bool" where
  "re_digit U c \<longleftrightarrow> (if c < 256 then is_ascii_digit c else decimal_hi U c)"

definition char_upper :: "ucd \<Rightarrow> nat \<Rightarrow> ustring" where
  "char_upper U c =
     (if c < 256 then
        (if is_ascii_lower c then [c - 32]
         else if c = 0xB5 then [0x39C]
         else if c = 0xDF then [0x53, 0x53]
         else if c = 0xFF then [0x178]
         else if 0xE0 \<le> c \<and> c \<noteq> 0xF7 then [c - 32]
         else [c])
      else upper_map_hi U c)"

definition upper :: "ucd \<Rightarrow> ustring \<Rightarrow> ustring" where
  "upper U s = concat (map (char_upper U) s)"

text \<open>
  \<open>s.isupper()\<close>: no lower-case or title-case character, and at least one
  upper-case one.
\<close>

definition isupper :: "ucd \<Rightarrow> ustring \<Rightarrow> bool" where
  "isupper U s \<longleftrightarrow> list_all (\<lambda>c. \<not> char_islower U c) s \<and> list_ex (char_isupper U) s"

definition strip :: "ustring \<Rightarrow> ustring" where
  "strip s = rev (dropWhile isspace (rev (dropWhile isspace s)))"

text \<open>\<open>s.split(sep)\<close> for a one-character separator: always at least one piece.\<close>

fun split_on :: "nat \<Rightarrow> ustring \<Rightarrow> ustring list" where
  "split_on sep [] = [[]]"
| "split_on sep (c # cs) =
     (if c = sep then [] # split_on sep cs
      else (case split_on sep cs of
              [] \<Rightarrow> [[c]]
            | p # ps \<Rightarrow> (c # p) # ps))"

definition startswith :: "ustring \<Rightarrow> ustring \<Rightarrow> bool" where
  "startswith s p \<longleftrightarrow> prefix p s"

text \<open>\<open>needle in haystack\<close> on strings: a contiguous occurrence.\<close>

definition str_in :: "ustring \<Rightarrow> ustring \<Rightarrow> bool" where
  "str_in needle haystack \<longleftrightarrow> sublist needle haystack"

text \<open>\<open>text.replace(old, new)\<close> where \<open>old\<close> is one character.\<close>

definition str_replace :: "nat \<Rightarrow> ustring \<Rightarrow> ustring \<Rightarrow> ustring" where
  "str_replace old new text = concat (map (\<lambda>c. if c = old then new else [c]) text)"

section \<open>The sanitizer: \<open>clean_text_for_pdf\<close>\<close>

text \<open>
  The dictionary literal \<open>replacements\<close>, entry by entry in the order of the
  source. Three keys are written twice, once as an escape and once as the glyph
  itself: U+2022, U+25CF and U+25CB.
\<close>

definition replacements_literal :: "(nat \<times> ustring) list" where
  "replacements_literal =
     [(0x2022, ustr ''* ''), (0x2013, ustr ''-''), (0x2014, ustr ''-''),
      (0x2019, [39]), (0x201C, [34]), (0x201D, [34]),
      (0x2026, ustr ''...''), (0x00A0, ustr '' ''), (0x2212, ustr ''-''),
      (0x00B7, ustr ''* ''), (0x25CF, ustr ''* ''), (0x25CB, ustr ''* ''),
      (0x25A0, ustr ''* ''), (0x25A1, ustr ''* ''),
      (0x2192, ustr ''->''), (0x2190, ustr ''<-''),
      (0x00AE, ustr ''(R)''), (0x00A9, ustr ''(C)''), (0x2122, ustr ''(TM)''),
      (0x2500, ustr ''-''), (0x2502, ustr ''|''), (0x2022, ustr ''* ''),
      (0x2605, ustr ''*''), (0x2606, ustr ''*''),
      (0x25CF, ustr ''* ''), (0x25CB, ustr ''* '')]"

text \<open>
  A dictionary display keeps a key at the place of its first occurrence and the
  value of its last; \<open>items()\<close> iterates in that order.
\<close>

definition dict_items :: "('k \<times> 'v) list \<Rightarrow> ('k \<times> 'v) list" where
  "dict_items kvs = foldl (\<lambda>d (k, v). AList.update k v d) [] kvs"

definition replacements :: "(nat \<times> ustring) list" where
  "replacements = dict_items replacements_literal"

definition apply_replacements :: "(nat \<times> ustring) list \<Rightarrow> ustring \<Rightarrow> ustring" where
  "apply_replacements kvs text = foldl (\<lambda>t (k, r). str_replace k r t) text kvs"

text \<open>What the second loop appends to \<open>safe_text\<close> for one character.\<close>

definition safe_char :: "ucd \<Rightarrow> nat \<Rightarrow> ustring" where
  "safe_char U c =
     (if c < 128 then [c]
      else if char_isalpha U c then (if c < 256 then [c] else ustr ''?'')
      else if char_isdigit U c then (if c < 256 then [c] else ustr ''?'')
      else if isspace c then ustr '' ''
      else (if c < 256 then [c] else []))"

definition fallback_pass :: "ucd \<Rightarrow> ustring \<Rightarrow> ustring" where
  "fallback_pass U text = foldl (\<lambda>safe_text c. safe_text @ safe_char U c) [] text"

definition clean_text_for_pdf :: "ucd \<Rightarrow> ustring \<Rightarrow> ustring" where
  "clean_text_for_pdf U text = fallback_pass U (apply_replacements replacements text)"

text \<open>
  An excerpt of the character database beyond Latin-1, to run examples on: the
  Greek and the basic Cyrillic letters and the Arabic-Indic digits.
\<close>

definition ucd_excerpt :: ucd where
  "ucd_excerpt = \<lparr>
     alpha_hi = (\<lambda>c. (0x391 \<le> c \<and> c \<le> 0x3C9 \<and> c \<noteq> 0x3A2 \<and> c \<noteq> 0x3AA \<and> c \<noteq> 0x3AB \<and>
                        \<not> (0x3AC \<le> c \<and> c \<le> 0x3B0)) \<or> (0x410 \<le> c \<and> c \<le> 0x44F)),
     digit_hi = (\<lambda>c. 0x660 \<le> c \<and> c \<le> 0x669),
     decimal_hi = (\<lambda>c. 0x660 \<le> c \<and> c \<le> 0x669),
     lower_hi = (\<lambda>c. (0x3B1 \<le> c \<and> c \<le> 0x3C9) \<or> (0x430 \<le> c \<and> c \<le> 0x44F)),
     upper_hi = (\<lambda>c. (0x391 \<le> c \<and> c \<le> 0x3A9 \<and> c \<noteq> 0x3A2) \<or> (0x410 \<le> c \<and> c \<le> 0x42F)),
     upper_map_hi = (\<lambda>c. if c = 0x3C2 then [0x3A3]
                          else if (0x3B1 \<le> c \<and> c \<le> 0x3C9) \<or> (0x430 \<le> c \<and> c \<le> 0x44F)
                          then [c - 32] else [c]) \<rparr>"

section \<open>Input validation: the patterns of \<open>validate_email\<close> and its siblings\<close>

text \<open>
  The four patterns use character classes, literals, optional groups, bounded
  and unbounded repetition of a class, and the anchors \<open>^\<close> and \<open>$\<close>.
  \<open>rests r s\<close> lists what can be left of \<open>s\<close> after \<open>r\<close> has matched a prefix
  of it, the longer matches first; \<open>re.match\<close> succeeds when there is a way to
  match, so when the list is not empty. \<open>$\<close> matches at the end of the string
  and just before a newline that ends it.
\<close>

datatype regex =
    Empty
  | Chars "nat \<Rightarrow> bool"
  | Seq regex regex
  | Opt regex
  | Rep "nat \<Rightarrow> bool" nat "nat option"
  | Dollar

fun rep_rests :: "(nat \<Rightarrow> bool) \<Rightarrow> nat \<Rightarrow> nat option \<Rightarrow> ustring \<Rightarrow> ustring list" where
  "rep_rests P lo hi [] = (if lo = 0 then [[]] else [])"
| "rep_rests P lo hi (c # cs) =
     (if P c \<and> hi \<noteq> Some 0 then rep_rests P (lo - 1) (map_option (\<lambda>h. h - 1) hi) cs else [])
     @ (if lo = 0 then [c # cs] else [])"

fun rests :: "regex \<Rightarrow> ustring \<Rightarrow> ustring list" where
  "rests Empty s = [s]"
| "rests (Chars P) s = (case s of [] \<Rightarrow> [] | c # cs \<Rightarrow> if P c then [cs] else [])"
| "rests (Seq a b) s = concat (map (rests b) (rests a s))"
| "rests (Opt a) s = rests a s @ [s]"
| "rests (Rep P lo hi) s = rep_rests P lo hi s"
| "rests Dollar s = (if s = [] \<or> s = [10] then [s] else [])"

definition re_match :: "regex \<Rightarrow> ustring \<Rightarrow> bool" where
  "re_match r s \<longleftrightarrow> rests r s \<noteq> []"

text \<open>A literal piece of a pattern, and a pattern as the sequence of its pieces.\<close>

fun lit :: "string \<Rightarrow> regex" where
  "lit [] = Empty"
| "lit (c # cs) = Seq (Chars (\<lambda>x. x = of_char c)) (lit cs)"

fun pieces :: "regex list \<Rightarrow> regex" where
  "pieces [] = Empty"
| "pieces (r # rs) = Seq r (pieces rs)"

definition one_of :: "string \<Rightarrow> nat \<Rightarrow> bool" where
  "one_of cs c \<longleftrightarrow> c \<in> set (ustr cs)"

definition is_ascii_alnum :: "nat \<Rightarrow> bool" where
  "is_ascii_alnum c \<longleftrightarrow> is_ascii_lower c \<or> is_ascii_upper c \<or> is_ascii_digit c"

text \<open>\<^verbatim>\<open>^[a-zA-Z0-9._%+-]+@[a-zA-Z0-9.-]+\.[a-zA-Z]{2,}$\<close>\<close>

definition email_pattern :: regex where
  "email_pattern = pieces
     [Rep (\<lambda>c. is_ascii_alnum c \<or> one_of ''._%+-'' c) 1 None,
      lit ''@'',
      Rep (\<lambda>c. is_ascii_alnum c \<or> one_of ''.-'' c) 1 None,
      lit ''.'',
      Rep (\<lambda>c. is_ascii_lower c \<or> is_ascii_upper c) 2 None,
      Dollar]"

definition validate_email :: "ustring \<Rightarrow> bool" where
  "validate_email email \<longleftrightarrow> re_match email_pattern email"

text \<open>\<^verbatim>\<open>^[\+]?[1-9][\d\s\-\(\)]{7,15}$\<close>, matched against the number without its
  spaces, hyphens and parentheses.\<close>

definition phone_pattern :: "ucd \<Rightarrow> regex" where
  "phone_pattern U = pieces
     [Opt (lit ''+''),
      Chars (\<lambda>c. 49 \<le> c \<and> c \<le> 57),
      Rep (\<lambda>c. re_digit U c \<or> isspace c \<or> one_of ''-()'' c) 7 (Some 15),
      Dollar]"

definition validate_phone :: "ucd \<Rightarrow> ustring \<Rightarrow> bool" where
  "validate_phone U phone \<longleftrightarrow>
     re_match (phone_pattern U)
       (str_replace 41 [] (str_replace 40 [] (str_replace 45 [] (str_replace 32 [] phone))))"

text \<open>\<^verbatim>\<open>^(https?://)?(www\.)?linkedin\.com/in/[a-zA-Z0-9-]+/?$\<close>\<close>

definition linkedin_pattern :: regex where
  "linkedin_pattern = pieces
     [Opt (pieces [lit ''http'', Opt (lit ''s''), lit ''://'']),
      Opt (lit ''www.''),
      lit ''linkedin.com/in/'',
      Rep (\<lambda>c. is_ascii_alnum c \<or> one_of ''-'' c) 1 None,
      Opt (lit ''/''),
      Dollar]"

definition validate_linkedin :: "ustring \<Rightarrow> bool" where
  "validate_linkedin linkedin \<longleftrightarrow>
     (if linkedin = [] then True else re_match linkedin_pattern linkedin)"

text \<open>\<^verbatim>\<open>^(https?://)?(www\.)?github\.com/[a-zA-Z0-9-]+/?$\<close>\<close>

definition github_pattern :: regex where
  "github_pattern = pieces
     [Opt (pieces [lit ''http'', Opt (lit ''s''), lit ''://'']),
      Opt (lit ''www.''),
      lit ''github.com/'',
      Rep (\<lambda>c. is_ascii_alnum c \<or> one_of ''-'' c) 1 None,
      Opt (lit ''/''),
      Dollar]"

definition validate_github :: "ustring \<Rightarrow> bool" where
  "validate_github github \<longleftrightarrow>
     (if github = [] then True else re_match github_pattern github)"

section \<open>Exceptions\<close>

text \<open>
  The source raises \<open>ResumeGeneratorError\<close> with a message; the messages are the
  constructors of \<open>message\<close>, in the order of the \<open>raise\<close> statements.
  \<open>UnexpectedError e\<close> is the message \<open>"Unexpected error: " + str(e)\<close> that
  \<open>safe_api_call\<close> builds from the exception it caught. The other exceptions
  are those of the interpreter and of the HTTP client. A \<open>KeyError\<close> carries the
  key that was not found: a string, or the index \<open>0\<close> when a JSON object is
  subscripted with it.
\<close>

datatype dict_key = StrKey string | IntKey int

datatype message =
    MissingRequiredFields "string list"
  | InvalidEmailFormat
  | InvalidPhoneFormat
  | InvalidApiKeyFormat
  | ApiKeyAuthenticationFailed
  | ApiKeyAccessDenied
  | IamTokenError int ustring
  | ModelNotAvailable
  | AccessDenied
  | RateLimitExceeded
  | ApiError int ustring
  | NoResponseFromModel
  | EmptyResponse
  | RequestTimedOut
  | ConnectionError
  | UnexpectedError exn
and exn =
    ResumeGeneratorError message
  | TimeoutException
  | ConnectError
  | KeyError dict_key
  | TypeError
  | AttributeError
  | IndexError
  | JSONDecodeError
  | OtherException

text \<open>An exception raised by a step ends the computation; otherwise the next step runs.\<close>

definition and_then :: "exn + 'a \<Rightarrow> ('a \<Rightarrow> exn + 'b) \<Rightarrow> exn + 'b" where
  "and_then r f = (case r of Inl e \<Rightarrow> Inl e | Inr v \<Rightarrow> f v)"

section \<open>The prompt builder: \<open>create_resume_prompt\<close>\<close>

text \<open>\<open>user_data\<close> is a dictionary from field names to strings.\<close>

type_synonym user_data = "string \<rightharpoonup> ustring"

definition getitem :: "user_data \<Rightarrow> string \<Rightarrow> exn + ustring" where
  "getitem d k = (case d k of None \<Rightarrow> Inl (KeyError (StrKey k)) | Some v \<Rightarrow> Inr v)"

definition get_default :: "user_data \<Rightarrow> string \<Rightarrow> ustring \<Rightarrow> ustring" where
  "get_default d k dflt = (case d k of None \<Rightarrow> dflt | Some v \<Rightarrow> v)"

text \<open>The lines of a literal, joined by newlines.\<close>

fun join_lines :: "string list \<Rightarrow> ustring" where
  "join_lines [] = []"
| "join_lines [l] = ustr l"
| "join_lines (l # ls) = ustr l @ [10] @ join_lines ls"

text \<open>
  The f-string \<open>base_info\<close>, given the values of the seven subscripted fields.
\<close>

definition base_info_text ::
  "ustring \<Rightarrow> ustring \<Rightarrow> ustring \<Rightarrow> ustring \<Rightarrow> ustring \<Rightarrow> ustring \<Rightarrow> ustring \<Rightarrow> ustring \<Rightarrow> ustring
     \<Rightarrow> ustring" where
  "base_info_text name role phone email location skills experience education certifications =
     [10] @ ustr ''Name: '' @ name @
     [10] @ ustr ''Role: '' @ role @
     [10] @ ustr ''Phone: '' @ phone @
     [10] @ ustr ''Email: '' @ email @
     [10] @ ustr ''Location: '' @ location @
     [10] @ ustr ''Skills: '' @ skills @
     [10] @ ustr ''Experience: '' @ experience @
     [10] @ ustr ''Education: '' @ education @
     [10] @ ustr ''Certifications: '' @ certifications @
     [10]"

text \<open>
  The fields are read in the order of the f-string; the first missing
  subscripted key raises \<open>KeyError\<close>.
\<close>

definition base_info :: "user_data \<Rightarrow> exn + ustring" where
  "base_info d =
     and_then (getitem d ''name'') (\<lambda>name.
     and_then (getitem d ''role'') (\<lambda>role.
     and_then (getitem d ''phone'') (\<lambda>phone.
     and_then (getitem d ''email'') (\<lambda>email.
     and_then (getitem d ''skills'') (\<lambda>skills.
     and_then (getitem d ''experience'') (\<lambda>experience.
     and_then (getitem d ''education'') (\<lambda>education.
       Inr (base_info_text name role phone email
              (get_default d ''location'' (ustr ''Not specified''))
              skills experience education
              (get_default d ''certifications'' (ustr ''None listed''))))))))))"

definition professional_intro :: ustring where
  "professional_intro = join_lines
     [''Create a professional, ATS-friendly resume with clean formatting. Use the following information:'',
      '''',
      '''']"

definition professional_requirements :: ustring where
  "professional_requirements = join_lines
     ['''',
      '''',
      ''Format requirements:'',
      ''- Use ALL CAPS for section headers'',
      ''- Use simple dashes (-) for bullet points'',
      ''- Keep formatting clean and scannable'',
      ''- Include sections: CONTACT INFO, EDUCATION, TECHNICAL SKILLS, EXPERIENCE, CERTIFICATIONS'',
      ''- Make it concise but comprehensive'',
      ''- Use action verbs and quantify achievements where possible'',
      '''',
      ''Generate a complete, professional resume.'']"

definition technical_intro :: ustring where
  "technical_intro = join_lines
     [''Create a technical resume optimized for software engineering roles. Use the following information:'',
      '''',
      '''']"

definition technical_requirements :: ustring where
  "technical_requirements = join_lines
     ['''',
      '''',
      ''Format requirements:'',
      ''- Emphasize technical skills and projects'',
      ''- Use ALL CAPS for section headers'',
      ''- Include sections: CONTACT INFO, TECHNICAL SKILLS, EXPERIENCE, EDUCATION, CERTIFICATIONS'',
      ''- Highlight programming languages, frameworks, and tools'',
      ''- Focus on technical achievements and impact'',
      ''- Use metrics and numbers where possible'',
      '''',
      ''Generate a complete, technical resume.'']"

definition creative_intro :: ustring where
  "creative_intro = join_lines
     [''Create a creative but professional resume with engaging language. Use the following information:'',
      '''',
      '''']"

definition creative_requirements :: ustring where
  "creative_requirements = join_lines
     ['''',
      '''',
      ''Format requirements:'',
      ''- Use dynamic action words'',
      ''- Show personality while maintaining professionalism'',
      ''- Use ALL CAPS for section headers'',
      ''- Include sections: CONTACT INFO, SUMMARY, EXPERIENCE, SKILLS, EDUCATION, CERTIFICATIONS'',
      ''- Include a brief professional summary'',
      ''- Highlight unique achievements and value propositions'',
      '''',
      ''Generate a complete, creative resume.'']"

definition academic_intro :: ustring where
  "academic_intro = join_lines
     [''Create an academic-style resume with detailed education focus. Use the following information:'',
      '''',
      '''']"

definition academic_requirements :: ustring where
  "academic_requirements = join_lines
     ['''',
      '''',
      ''Format requirements:'',
      ''- Emphasize education, research, and academic achievements'',
      ''- Use ALL CAPS for section headers'',
      ''- Include sections: CONTACT INFO, EDUCATION, RESEARCH EXPERIENCE, SKILLS, CERTIFICATIONS'',
      ''- Include GPA if mentioned in education'',
      ''- Focus on academic contributions and scholarly work'',
      '''',
      ''Generate a complete, academic resume.'']"

definition create_resume_prompt :: "user_data \<Rightarrow> ustring \<Rightarrow> exn + ustring" where
  "create_resume_prompt d template_style =
     (case base_info d of Inl e \<Rightarrow> Inl e | Inr info \<Rightarrow>
        if template_style = ustr ''professional'' then
          Inr (professional_intro @ info @ professional_requirements)
        else if template_style = ustr ''technical'' then
          Inr (technical_intro @ info @ technical_requirements)
        else if template_style = ustr ''creative'' then
          Inr (creative_intro @ info @ creative_requirements)
        else
          Inr (academic_intro @ info @ academic_requirements))"

section \<open>The generation client: \<open>get_iam_token\<close> and \<open>generate_resume\<close>\<close>

text \<open>
  What \<open>resp.json()\<close> returns. An object is the association list of its
  dictionary; of a number only whether it is zero is ever read.
\<close>

datatype json =
    JNull
  | JBool bool
  | JNum int
  | JStr ustring
  | JArr "json list"
  | JObj "(ustring \<times> json) list"

text \<open>
  A response of the HTTP client: \<open>status_code\<close>, \<open>text\<close>, and the value of
  \<open>json()\<close>, which is \<open>None\<close> when the body is not JSON and the call raises.
\<close>

record response =
  status_code :: int
  body_text :: ustring
  body_json :: "json option"

text \<open>
  The two endpoints are the environment of the client: \<open>httpx.post\<close> either
  raises or returns a response. The token endpoint is given the API key, the
  generation endpoint the bearer token, the model, the prompt and the project.
  The calls made are recorded in a trace.
\<close>

record network =
  iam_endpoint :: "json \<Rightarrow> exn + response"
  generation_endpoint :: "json \<Rightarrow> ustring \<Rightarrow> ustring \<Rightarrow> json \<Rightarrow> exn + response"

datatype call =
    IamTokenCall json
  | GenerationCall json ustring ustring json

text \<open>\<open>key in data\<close>, \<open>data[key]\<close>, \<open>not data\<close>, \<open>data[0]\<close>, \<open>data.get(key, "")\<close>
  and \<open>data.strip()\<close> on a decoded JSON value.\<close>

definition json_contains :: "ustring \<Rightarrow> json \<Rightarrow> exn + bool" where
  "json_contains key data =
     (case data of
        JObj kvs \<Rightarrow> Inr (map_of kvs key \<noteq> None)
      | JArr xs \<Rightarrow> Inr (JStr key \<in> set xs)
      | JStr s \<Rightarrow> Inr (str_in key s)
      | _ \<Rightarrow> Inl TypeError)"

definition json_getitem :: "json \<Rightarrow> string \<Rightarrow> exn + json" where
  "json_getitem data key =
     (case data of
        JObj kvs \<Rightarrow>
          (case map_of kvs (ustr key) of None \<Rightarrow> Inl (KeyError (StrKey key)) | Some v \<Rightarrow> Inr v)
      | _ \<Rightarrow> Inl TypeError)"

definition json_truthy :: "json \<Rightarrow> bool" where
  "json_truthy data =
     (case data of
        JNull \<Rightarrow> False
      | JBool b \<Rightarrow> b
      | JNum n \<Rightarrow> n \<noteq> 0
      | JStr s \<Rightarrow> s \<noteq> []
      | JArr xs \<Rightarrow> xs \<noteq> []
      | JObj kvs \<Rightarrow> kvs \<noteq> [])"

definition json_first :: "json \<Rightarrow> exn + json" where
  "json_first data =
     (case data of
        JArr xs \<Rightarrow> (case xs of [] \<Rightarrow> Inl IndexError | x # _ \<Rightarrow> Inr x)
      | JStr s \<Rightarrow> (case s of [] \<Rightarrow> Inl IndexError | c # _ \<Rightarrow> Inr (JStr [c]))
      | JObj kvs \<Rightarrow> Inl (KeyError (IntKey 0))
      | _ \<Rightarrow> Inl TypeError)"

definition json_get :: "json \<Rightarrow> ustring \<Rightarrow> json \<Rightarrow> exn + json" where
  "json_get data key dflt =
     (case data of
        JObj kvs \<Rightarrow> (case map_of kvs key of None \<Rightarrow> Inr dflt | Some v \<Rightarrow> Inr v)
      | _ \<Rightarrow> Inl AttributeError)"

definition json_strip :: "json \<Rightarrow> exn + ustring" where
  "json_strip data = (case data of JStr s \<Rightarrow> Inr (strip s) | _ \<Rightarrow> Inl AttributeError)"

text \<open>
  \<open>safe_api_call\<close>: the two transport exceptions get their own message; the
  last handler, \<open>except Exception\<close>, catches everything else, and
  \<open>ResumeGeneratorError\<close> is a subclass of \<open>Exception\<close>.
\<close>

definition safe_api_call :: "exn + 'a \<Rightarrow> exn + 'a" where
  "safe_api_call r =
     (case r of
        Inr v \<Rightarrow> Inr v
      | Inl TimeoutException \<Rightarrow> Inl (ResumeGeneratorError RequestTimedOut)
      | Inl ConnectError \<Rightarrow> Inl (ResumeGeneratorError ConnectionError)
      | Inl e \<Rightarrow> Inl (ResumeGeneratorError (UnexpectedError e)))"

text \<open>The inner function \<open>_get_token\<close>, given what the post returned.\<close>

definition get_token_inner :: "exn + response \<Rightarrow> exn + json" where
  "get_token_inner posted =
     (case posted of
        Inl e \<Rightarrow> Inl e
      | Inr resp \<Rightarrow>
          if status_code resp \<noteq> 200 then
            (if status_code resp = 400 then Inl (ResumeGeneratorError InvalidApiKeyFormat)
             else if status_code resp = 401 then Inl (ResumeGeneratorError ApiKeyAuthenticationFailed)
             else if status_code resp = 403 then Inl (ResumeGeneratorError ApiKeyAccessDenied)
             else Inl (ResumeGeneratorError (IamTokenError (status_code resp) (body_text resp))))
          else
            (case body_json resp of
               None \<Rightarrow> Inl JSONDecodeError
             | Some data \<Rightarrow> json_getitem data ''access_token''))"

definition get_iam_token :: "network \<Rightarrow> json \<Rightarrow> exn + json" where
  "get_iam_token net api_key = safe_api_call (get_token_inner (iam_endpoint net api_key))"

text \<open>The inner function \<open>_generate\<close>, given what the post returned.\<close>

definition generate_inner :: "exn + response \<Rightarrow> exn + ustring" where
  "generate_inner posted =
     (case posted of
        Inl e \<Rightarrow> Inl e
      | Inr resp \<Rightarrow>
          if status_code resp = 404 then Inl (ResumeGeneratorError ModelNotAvailable)
          else if status_code resp = 403 then Inl (ResumeGeneratorError AccessDenied)
          else if status_code resp = 429 then Inl (ResumeGeneratorError RateLimitExceeded)
          else if status_code resp \<noteq> 200 then
            Inl (ResumeGeneratorError (ApiError (status_code resp) (body_text resp)))
          else
            (case body_json resp of
               None \<Rightarrow> Inl JSONDecodeError
             | Some data \<Rightarrow>
                 (case json_contains (ustr ''results'') data of
                    Inl e \<Rightarrow> Inl e
                  | Inr False \<Rightarrow> Inl (ResumeGeneratorError NoResponseFromModel)
                  | Inr True \<Rightarrow>
                      (case json_getitem data ''results'' of
                         Inl e \<Rightarrow> Inl e
                       | Inr results \<Rightarrow>
                           if \<not> json_truthy results then
                             Inl (ResumeGeneratorError NoResponseFromModel)
                           else
                             (case json_first results of
                                Inl e \<Rightarrow> Inl e
                              | Inr first \<Rightarrow>
                                  (case json_get first (ustr ''generated_text'') (JStr []) of
                                     Inl e \<Rightarrow> Inl e
                                   | Inr g \<Rightarrow>
                                       (case json_strip g of
                                          Inl e \<Rightarrow> Inl e
                                        | Inr generated_text \<Rightarrow>
                                            if generated_text = [] then
                                              Inl (ResumeGeneratorError EmptyResponse)
                                            else Inr generated_text)))))))"

text \<open>
  \<open>generate_resume\<close> returns the trace of the network calls it made and its
  result. \<open>secrets\<close> is the section \<open>st.secrets["ibm"]\<close>.
\<close>

definition required_fields :: "string list" where
  "required_fields =
     [''name'', ''role'', ''skills'', ''experience'', ''education'', ''phone'', ''email'']"

definition missing_fields :: "user_data \<Rightarrow> string list" where
  "missing_fields d = filter (\<lambda>field. strip (get_default d field []) = []) required_fields"

text \<open>
  The statements of \<open>generate_resume\<close> down to the phone check: the exception
  they raise, if any.
\<close>

definition validation :: "ucd \<Rightarrow> user_data \<Rightarrow> exn option" where
  "validation U d =
     (if missing_fields d \<noteq> [] then
        Some (ResumeGeneratorError (MissingRequiredFields (missing_fields d)))
      else
        (case getitem d ''email'' of
           Inl e \<Rightarrow> Some e
         | Inr email \<Rightarrow>
            if \<not> validate_email email then Some (ResumeGeneratorError InvalidEmailFormat)
            else
              (case getitem d ''phone'' of
                 Inl e \<Rightarrow> Some e
               | Inr phone \<Rightarrow>
                  if \<not> validate_phone U phone then Some (ResumeGeneratorError InvalidPhoneFormat)
                  else None)))"

definition generate_resume ::
  "ucd \<Rightarrow> network \<Rightarrow> (string \<rightharpoonup> json) \<Rightarrow> user_data \<Rightarrow> ustring \<Rightarrow> ustring
     \<Rightarrow> call list \<times> (exn + ustring)" where
  "generate_resume U net secrets d model_id template_style =
     (case validation U d of
        Some e \<Rightarrow> ([], Inl e)
      | None \<Rightarrow>
         (case create_resume_prompt d template_style of
            Inl e \<Rightarrow> ([], Inl e)
          | Inr prompt \<Rightarrow>
             (case secrets ''api_key'' of
                None \<Rightarrow> ([], Inl (KeyError (StrKey ''api_key'')))
              | Some api_key \<Rightarrow>
                 (case secrets ''project_id'' of
                    None \<Rightarrow> ([], Inl (KeyError (StrKey ''project_id'')))
                  | Some project_id \<Rightarrow>
                     (case get_iam_token net api_key of
                        Inl e \<Rightarrow> ([IamTokenCall api_key], Inl e)
                      | Inr token \<Rightarrow>
                         ([IamTokenCall api_key,
                           GenerationCall token model_id prompt project_id],
                          safe_api_call
                            (generate_inner
                               (generation_endpoint net token model_id prompt project_id))))))))"

section \<open>The renderer: \<open>export_as_pdf\<close>\<close>

text \<open>
  The document is the sequence of the calls made on the layout primitive.
  \<open>Rule\<close> stands for \<open>set_line_width(0.5)\<close> followed by the \<open>line\<close> between the
  margins. The page header is recorded once, where \<open>add_page\<close> calls \<open>header\<close>
  for the first page. The layout primitive calls \<open>footer\<close> and \<open>header\<close> again
  at every automatic page break; where the breaks fall depends on the measured
  height of the text, so the later pages' headers are not recorded. The footer
  (a date stamp) and the file name and output at the end depend on the clock
  and the file system and are left out as well.
\<close>

datatype pdf_op =
    AddPage
  | SetMargins int int int
  | Ln int
  | SetFont string string int
  | Cell int int ustring int int string
  | MultiCell int int ustring int string
  | Rule

fun join :: "ustring \<Rightarrow> ustring list \<Rightarrow> ustring" where
  "join sep [] = []"
| "join sep [x] = x"
| "join sep (x # xs) = x @ sep @ join sep xs"

text \<open>\<open>EnhancedPDF.header\<close>, which \<open>add_page\<close> calls.\<close>

definition contact_parts :: "ucd \<Rightarrow> user_data \<Rightarrow> ustring list" where
  "contact_parts U d =
     (if get_default d ''phone'' [] \<noteq> [] then [clean_text_for_pdf U (get_default d ''phone'' [])] else [])
     @ (if get_default d ''email'' [] \<noteq> [] then [clean_text_for_pdf U (get_default d ''email'' [])] else [])
     @ (if get_default d ''location'' [] \<noteq> [] then [clean_text_for_pdf U (get_default d ''location'' [])] else [])"

definition social_parts :: "ucd \<Rightarrow> user_data \<Rightarrow> ustring list" where
  "social_parts U d =
     (if get_default d ''linkedin'' [] \<noteq> []
      then [ustr ''LinkedIn: '' @ clean_text_for_pdf U (get_default d ''linkedin'' [])] else [])
     @ (if get_default d ''github'' [] \<noteq> []
        then [ustr ''GitHub: '' @ clean_text_for_pdf U (get_default d ''github'' [])] else [])"

definition page_header :: "ucd \<Rightarrow> user_data \<Rightarrow> exn + pdf_op list" where
  "page_header U d =
     (case getitem d ''name'' of
        Inl e \<Rightarrow> Inl e
      | Inr name \<Rightarrow>
          Inr ([SetFont ''Arial'' ''B'' 20,
                Cell 0 15 (clean_text_for_pdf U (upper U name)) 0 1 ''C'',
                SetFont ''Arial'' [] 11,
                Cell 0 8 (join (ustr '' | '') (contact_parts U d)) 0 1 ''C'']
               @ (if social_parts U d \<noteq> []
                  then [SetFont ''Arial'' [] 10,
                        Cell 0 6 (join (ustr '' | '') (social_parts U d)) 0 1 ''C'']
                  else [])
               @ [Ln 10]))"

definition section_header :: "ucd \<Rightarrow> ustring \<Rightarrow> pdf_op list" where
  "section_header U title =
     [Ln 5, SetFont ''Arial'' ''B'' 13, Cell 0 8 (clean_text_for_pdf U title) 0 1 ''L'', Rule, Ln 5]"

definition safe_cell :: "ucd \<Rightarrow> int \<Rightarrow> int \<Rightarrow> ustring \<Rightarrow> int \<Rightarrow> int \<Rightarrow> string \<Rightarrow> pdf_op" where
  "safe_cell U w h t border ln align = Cell w h (clean_text_for_pdf U t) border ln align"

definition safe_multi_cell :: "ucd \<Rightarrow> int \<Rightarrow> int \<Rightarrow> ustring \<Rightarrow> pdf_op" where
  "safe_multi_cell U w h t = MultiCell w h (clean_text_for_pdf U t) 0 ''L''"

text \<open>The state of the loop over the lines.\<close>

record body_state =
  skip_header :: bool
  current_section :: "ustring option"
  ops :: "pdf_op list"

text \<open>The part of the loop body under \<open># Format based on content\<close>.\<close>

definition format_line :: "ucd \<Rightarrow> int \<Rightarrow> body_state \<Rightarrow> ustring \<Rightarrow> body_state" where
  "format_line U font_size st line =
     (if isupper U line \<and> length line < 50 \<and> \<not> startswith line (ustr ''-'')
           \<and> \<not> startswith line (ustr ''*'') then
        st\<lparr>ops := ops st @ section_header U line, current_section := Some line\<rparr>
      else if startswith line (ustr ''- '') \<or> startswith line (ustr ''* '')
              \<or> startswith line (ustr ''+ '') then
        st\<lparr>ops := ops st @
             [SetFont ''Arial'' [] font_size,
              safe_cell U 8 6 (ustr ''* '') 0 0 ''L'',
              safe_multi_cell U 0 6 (if length line > 2 then strip (drop 2 line) else line),
              Ln 1]\<rparr>
      else
        st\<lparr>ops := ops st @
             [SetFont ''Arial'' [] font_size, safe_multi_cell U 0 6 line, Ln 1]\<rparr>)"

text \<open>The three strings a line is compared with while the header is skipped.\<close>

definition header_infos :: "ucd \<Rightarrow> user_data \<Rightarrow> exn + ustring list" where
  "header_infos U d =
     and_then (getitem d ''name'') (\<lambda>name.
     and_then (getitem d ''phone'') (\<lambda>phone.
     and_then (getitem d ''email'') (\<lambda>email.
       Inr [clean_text_for_pdf U (upper U name), clean_text_for_pdf U phone,
            clean_text_for_pdf U email])))"

text \<open>One iteration of the loop, on one element of \<open>lines\<close>.\<close>

definition body_step :: "ucd \<Rightarrow> user_data \<Rightarrow> int \<Rightarrow> body_state \<Rightarrow> ustring \<Rightarrow> exn + body_state" where
  "body_step U d font_size st raw =
     (let line = strip raw in
      if line = [] then Inr (st\<lparr>ops := ops st @ [Ln 3]\<rparr>)
      else if skip_header st then
        (case header_infos U d of
           Inl e \<Rightarrow> Inl e
         | Inr infos \<Rightarrow>
             if list_ex (\<lambda>info. str_in info line) infos then Inr st
             else if isupper U line \<and> length line < 50 then
               Inr (format_line U font_size (st\<lparr>skip_header := False\<rparr>) line)
             else Inr st)
      else Inr (format_line U font_size st line))"

fun body_loop :: "ucd \<Rightarrow> user_data \<Rightarrow> int \<Rightarrow> body_state \<Rightarrow> ustring list \<Rightarrow> exn + body_state" where
  "body_loop U d font_size st [] = Inr st"
| "body_loop U d font_size st (l # ls) =
     (case body_step U d font_size st l of
        Inl e \<Rightarrow> Inl e
      | Inr st' \<Rightarrow> body_loop U d font_size st' ls)"

definition export_as_pdf :: "ucd \<Rightarrow> ustring \<Rightarrow> user_data \<Rightarrow> string \<Rightarrow> int \<Rightarrow> exn + body_state" where
  "export_as_pdf U generated d font_family font_size =
     (case page_header U d of
        Inl e \<Rightarrow> Inl e
      | Inr header \<Rightarrow>
          body_loop U d font_size
            \<lparr>skip_header = True, current_section = None,
             ops = [AddPage] @ header @ [SetMargins 20 20 20]\<rparr>
            (split_on 10 (clean_text_for_pdf U generated)))"

section \<open>Names for parts of the model, and example inputs\<close>

text \<open>The two style-specific parts of the prompt, by style as the \<open>if\<close> chain selects them.\<close>

definition prompt_intro :: "ustring \<Rightarrow> ustring" where
  "prompt_intro template_style =
     (if template_style = ustr ''professional'' then professional_intro
      else if template_style = ustr ''technical'' then technical_intro
      else if template_style = ustr ''creative'' then creative_intro
      else academic_intro)"

definition prompt_requirements :: "ustring \<Rightarrow> ustring" where
  "prompt_requirements template_style =
     (if template_style = ustr ''professional'' then professional_requirements
      else if template_style = ustr ''technical'' then technical_requirements
      else if template_style = ustr ''creative'' then creative_requirements
      else academic_requirements)"

text \<open>The keys that \<open>create_resume_prompt\<close> reads.\<close>

definition prompt_fields :: "string list" where
  "prompt_fields =
     [''name'', ''role'', ''phone'', ''email'', ''location'', ''skills'', ''experience'',
      ''education'', ''certifications'']"

text \<open>The profile of the end-to-end scenario, and the same with profile links.\<close>

definition jane_doe :: user_data where
  "jane_doe =
     [''name'' \<mapsto> ustr ''Jane Doe'', ''role'' \<mapsto> ustr ''Engineer'',
      ''phone'' \<mapsto> ustr ''555-0100'', ''email'' \<mapsto> ustr ''jane@ex.com'',
      ''skills'' \<mapsto> ustr ''Go'', ''experience'' \<mapsto> ustr ''X'', ''education'' \<mapsto> ustr ''Y'']"

definition jane_with_links :: user_data where
  "jane_with_links =
     jane_doe(''linkedin'' \<mapsto> ustr ''https://linkedin.com/in/jdoe'',
              ''github'' \<mapsto> ustr ''github.com/jdoe'')"

text \<open>
  The same profile with a phone number that passes \<open>validate_phone\<close> (the
  placeholder of the form), since "555-0100" has too few digits for the pattern.
\<close>

definition jane_valid :: user_data where
  "jane_valid = jane_doe(''phone'' \<mapsto> ustr ''+1 (555) 123-4567'')"

text \<open>
  The spec's \<open>ValidationError\<close>: the exceptions raised by the checks at the top
  of \<open>generate_resume\<close>.
\<close>

fun is_validation_error :: "exn \<Rightarrow> bool" where
  "is_validation_error (ResumeGeneratorError (MissingRequiredFields fs)) = True"
| "is_validation_error (ResumeGeneratorError InvalidEmailFormat) = True"
| "is_validation_error (ResumeGeneratorError InvalidPhoneFormat) = True"
| "is_validation_error e = False"

text \<open>Secrets, responses and networks to run examples on.\<close>

definition sample_secrets :: "string \<rightharpoonup> json" where
  "sample_secrets = [''api_key'' \<mapsto> JStr (ustr ''key''), ''project_id'' \<mapsto> JStr (ustr ''project'')]"

definition status_response :: "int \<Rightarrow> response" where
  "status_response code = \<lparr>status_code = code, body_text = ustr ''body'', body_json = None\<rparr>"

definition token_response :: response where
  "token_response =
     \<lparr>status_code = 200, body_text = [],
      body_json = Some (JObj [(ustr ''access_token'', JStr (ustr ''token''))])\<rparr>"

definition results_response :: "json \<Rightarrow> response" where
  "results_response results =
     \<lparr>status_code = 200, body_text = [],
      body_json = Some (JObj [(ustr ''results'', results)])\<rparr>"

definition sample_network :: "exn + response \<Rightarrow> exn + response \<Rightarrow> network" where
  "sample_network iam generation =
     \<lparr>iam_endpoint = (\<lambda>api_key. iam),
      generation_endpoint = (\<lambda>token model_id prompt project_id. generation)\<rparr>"

section \<open>Properties of the sanitizer\<close>

lemma replacements_eq:
  "replacements =
     [(0x2022, ustr ''* ''), (0x2013, ustr ''-''), (0x2014, ustr ''-''),
      (0x2019, [39]), (0x201C, [34]), (0x201D, [34]),
      (0x2026, ustr ''...''), (0x00A0, ustr '' ''), (0x2212, ustr ''-''),
      (0x00B7, ustr ''* ''), (0x25CF, ustr ''* ''), (0x25CB, ustr ''* ''),
      (0x25A0, ustr ''* ''), (0x25A1, ustr ''* ''),
      (0x2192, ustr ''->''), (0x2190, ustr ''<-''),
      (0x00AE, ustr ''(R)''), (0x00A9, ustr ''(C)''), (0x2122, ustr ''(TM)''),
      (0x2500, ustr ''-''), (0x2502, ustr ''|''),
      (0x2605, ustr ''*''), (0x2606, ustr ''*'')]"
  by (simp add: replacements_def dict_items_def replacements_literal_def)

lemma fallback_pass_concat: "fallback_pass U s = concat (map (safe_char U) s)"
proof -
  have "foldl (\<lambda>acc c. acc @ safe_char U c) acc s = acc @ concat (map (safe_char U) s)"
    for acc
    by (induction s arbitrary: acc) simp_all
  then show ?thesis by (simp add: fallback_pass_def)
qed

lemmas char_class_defs = char_isalpha_def char_isdigit_def isspace_def is_ascii_upper_def
  is_ascii_lower_def is_ascii_digit_def

lemma str_replace_absent: "old \<notin> set s \<Longrightarrow> str_replace old new s = s"
  by (induction s) (simp_all add: str_replace_def)

lemma set_str_replace: "set (str_replace old new s) \<subseteq> (set s - {old}) \<union> set new"
  by (induction s) (auto simp: str_replace_def)

lemma apply_replacements_absent:
  "fst ` set kvs \<inter> set s = {} \<Longrightarrow> apply_replacements kvs s = s"
proof (induction kvs arbitrary: s)
  case Nil
  then show ?case by (simp add: apply_replacements_def)
next
  case (Cons kv kvs)
  obtain k r where kv: "kv = (k, r)" by (cases kv)
  from Cons.prems kv have "k \<notin> set s" by auto
  then have "str_replace k r s = s" by (rule str_replace_absent)
  moreover from Cons.prems have "fst ` set kvs \<inter> set s = {}" by auto
  ultimately show ?case using Cons.IH [of s] kv by (simp add: apply_replacements_def)
qed

text \<open>
  When no replacement string contains a key, the keys replaced so far stay
  absent, so after the loop no key is left.
\<close>

lemma apply_replacements_clears:
  assumes "\<forall>(k, r) \<in> set kvs. set r \<inter> K = {}" and "fst ` set kvs \<subseteq> K"
    and "set s \<inter> K0 = {}" and "K0 \<subseteq> K"
  shows "set (apply_replacements kvs s) \<inter> (K0 \<union> fst ` set kvs) = {}"
  using assms
proof (induction kvs arbitrary: s K0)
  case Nil
  then show ?case by (simp add: apply_replacements_def)
next
  case (Cons kv kvs)
  obtain k r where kv: "kv = (k, r)" by (cases kv)
  let ?s = "str_replace k r s"
  have r: "set r \<inter> K = {}" and k: "k \<in> K" using Cons.prems kv by auto
  have "set ?s \<inter> (K0 \<union> {k}) = {}"
    using set_str_replace [of k r s] r k Cons.prems(3,4) by blast
  moreover have "K0 \<union> {k} \<subseteq> K" using k Cons.prems(4) by simp
  moreover have "\<forall>(k, r) \<in> set kvs. set r \<inter> K = {}" "fst ` set kvs \<subseteq> K"
    using Cons.prems by auto
  ultimately have "set (apply_replacements kvs ?s) \<inter> ((K0 \<union> {k}) \<union> fst ` set kvs) = {}"
    by (rule Cons.IH [rotated 2])
  then show ?case
    using kv by (simp add: apply_replacements_def Un_commute Un_left_commute insert_commute)
qed

lemma replacement_values_ascii:
  "\<forall>(k, r) \<in> set replacements. set r \<inter> fst ` set replacements = {}"
  by (simp add: replacements_eq ustr_def)

lemma replaced_text_has_no_key:
  "set (apply_replacements replacements s) \<inter> fst ` set replacements = {}"
  using apply_replacements_clears [OF replacement_values_ascii subset_refl, of s "{}"] by simp

lemma safe_char_cases: "x \<in> set (safe_char U c) \<Longrightarrow> x = c \<or> x = 63 \<or> x = 32"
  by (auto simp: safe_char_def ustr_def split: if_splits)

lemma safe_char_latin1: "x \<in> set (safe_char U c) \<Longrightarrow> x < 256"
  by (auto simp: safe_char_def ustr_def split: if_splits)

lemma safe_char_fixed: "x \<in> set (safe_char U c) \<Longrightarrow> safe_char U x = [x]"
  by (auto simp: safe_char_def ustr_def split: if_splits)

lemma fallback_pass_fixed:
  "(\<And>x. x \<in> set s \<Longrightarrow> safe_char U x = [x]) \<Longrightarrow> fallback_pass U s = s"
  unfolding fallback_pass_concat by (induction s) simp_all

lemma set_fallback_pass: "set (fallback_pass U s) = (\<Union>c \<in> set s. set (safe_char U c))"
  by (simp add: fallback_pass_concat)

lemma fallback_pass_idem: "fallback_pass U (fallback_pass U s) = fallback_pass U s"
  by (rule fallback_pass_fixed) (auto simp: set_fallback_pass dest: safe_char_fixed)

lemma fallback_keeps_keys_out:
  assumes "set s \<inter> fst ` set replacements = {}"
  shows "set (fallback_pass U s) \<inter> fst ` set replacements = {}"
proof -
  have "63 \<notin> fst ` set replacements" "32 \<notin> fst ` set replacements"
    by (simp_all add: replacements_eq)
  with assms show ?thesis
    by (auto simp: set_fallback_pass dest!: safe_char_cases)
qed

lemma clean_text_example:
  "clean_text_for_pdf ucd_excerpt [0x2014, 0x416, 0x85, 65, 0x1F600, 0xE9, 0x2003]
     = [45, 63, 32, 65, 0xE9, 32]"
  by (simp add: clean_text_for_pdf_def replacements_eq apply_replacements_def str_replace_def
      fallback_pass_concat safe_char_def ustr_def char_class_defs ucd_excerpt_def)

text \<open>
  Claim C1. The sanitizer is a total function on strings (the model has no
  error branch because the source has no statement that can raise on a string).
  It is idempotent: sanitizing a sanitized string changes nothing. Every
  character of its result has a code point below 256.
\<close>

theorem clean_text_for_pdf_idempotent_latin1:
  "clean_text_for_pdf U (clean_text_for_pdf U s) = clean_text_for_pdf U s \<and>
   (\<forall>c \<in> set (clean_text_for_pdf U s). c < 256)"
proof
  let ?t = "clean_text_for_pdf U s"
  have "set ?t \<inter> fst ` set replacements = {}"
    unfolding clean_text_for_pdf_def
    by (rule fallback_keeps_keys_out) (rule replaced_text_has_no_key)
  then have "apply_replacements replacements ?t = ?t"
    by (intro apply_replacements_absent) auto
  then have "clean_text_for_pdf U ?t = fallback_pass U ?t"
    by (simp add: clean_text_for_pdf_def)
  also have "\<dots> = ?t"
    unfolding clean_text_for_pdf_def by (rule fallback_pass_idem)
  finally show "clean_text_for_pdf U ?t = ?t" .
  show "\<forall>c \<in> set ?t. c < 256"
    by (auto simp: clean_text_for_pdf_def set_fallback_pass dest: safe_char_latin1)
qed

text \<open>
  The theorem at an em dash, a Cyrillic letter, the control character U+0085,
  the letter A, an emoji, e with acute accent and an em space.
\<close>

theorem clean_text_for_pdf_idempotent_latin1_witness:
  "clean_text_for_pdf ucd_excerpt [0x2014, 0x416, 0x85, 65, 0x1F600, 0xE9, 0x2003]
     = [45, 63, 32, 65, 0xE9, 32] \<and>
   clean_text_for_pdf ucd_excerpt [45, 63, 32, 65, 0xE9, 32] = [45, 63, 32, 65, 0xE9, 32] \<and>
   list_all (\<lambda>c. c < 256) [45, 63, 32, 65, 0xE9, 32 :: nat]"
  using clean_text_for_pdf_idempotent_latin1
          [of ucd_excerpt "[0x2014, 0x416, 0x85, 65, 0x1F600, 0xE9, 0x2003]"]
  by (simp add: clean_text_example)

text \<open>
  Claim C8. The substitution table is applied before the per-character pass:
  the string that is a lone em dash (U+2014) sanitizes to a hyphen, not to a
  question mark.
\<close>

theorem em_dash_sanitizes_to_hyphen:
  "clean_text_for_pdf U [0x2014] = ustr ''-'' \<and> clean_text_for_pdf U [0x2014] \<noteq> ustr ''?'' \<and>
   apply_replacements replacements [0x2014] = ustr ''-''"
  by (simp add: clean_text_for_pdf_def replacements_eq apply_replacements_def str_replace_def
      fallback_pass_concat safe_char_def ustr_def)

text \<open>
  Claim C3, as stated, fails: the control character U+0085 has a code point
  below 256 and is whitespace, and the per-character pass turns it into a
  space instead of passing it through.
\<close>

theorem latin1_whitespace_not_passed_through:
  "(0x85 :: nat) < 256 \<and> fallback_pass ucd_excerpt [0x85] = ustr '' '' \<and>
   fallback_pass ucd_excerpt [0x85] \<noteq> [0x85]"
  by (simp add: fallback_pass_concat safe_char_def ustr_def char_class_defs)

text \<open>
  Claim C3, amended. The pass handles each character on its own. A character
  below 256 passes through unchanged, except the two whitespace characters of
  Latin-1 outside ASCII, U+0085 and U+00A0, which become a space. A character
  from 256 on becomes a question mark if it is alphabetic or a digit, else a
  space if it is whitespace, and is dropped otherwise.
\<close>

theorem fallback_pass_per_character:
  "fallback_pass U s = concat (map (safe_char U) s) \<and>
   (a < 256 \<and> a \<noteq> 0x85 \<and> a \<noteq> 0xA0 \<longrightarrow> safe_char U a = [a]) \<and>
   (w = 0x85 \<or> w = 0xA0 \<longrightarrow> safe_char U w = ustr '' '') \<and>
   (256 \<le> l \<and> (char_isalpha U l \<or> char_isdigit U l) \<longrightarrow> safe_char U l = ustr ''?'') \<and>
   (256 \<le> z \<and> \<not> char_isalpha U z \<and> \<not> char_isdigit U z \<and> isspace z
      \<longrightarrow> safe_char U z = ustr '' '') \<and>
   (256 \<le> x \<and> \<not> char_isalpha U x \<and> \<not> char_isdigit U x \<and> \<not> isspace x
      \<longrightarrow> safe_char U x = [])"
proof -
  have "a < 256 \<and> a \<noteq> 0x85 \<and> a \<noteq> 0xA0 \<longrightarrow> safe_char U a = [a]"
    by (auto simp: safe_char_def isspace_def)
  moreover have "w = 0x85 \<or> w = 0xA0 \<longrightarrow> safe_char U w = ustr '' ''"
    by (auto simp: safe_char_def char_class_defs)
  moreover have "256 \<le> l \<and> (char_isalpha U l \<or> char_isdigit U l) \<longrightarrow> safe_char U l = ustr ''?''"
    by (auto simp: safe_char_def)
  moreover have "256 \<le> z \<and> \<not> char_isalpha U z \<and> \<not> char_isdigit U z \<and> isspace z
      \<longrightarrow> safe_char U z = ustr '' ''"
    by (auto simp: safe_char_def)
  moreover have "256 \<le> x \<and> \<not> char_isalpha U x \<and> \<not> char_isdigit U x \<and> \<not> isspace x
      \<longrightarrow> safe_char U x = []"
    by (auto simp: safe_char_def)
  ultimately show ?thesis by (simp add: fallback_pass_concat)
qed

text \<open>
  The theorem at e with acute accent, U+0085, a Cyrillic letter, an em space
  and an emoji.
\<close>

theorem fallback_pass_per_character_witness:
  "safe_char ucd_excerpt 0xE9 = [0xE9] \<and>
   safe_char ucd_excerpt 0x85 = ustr '' '' \<and>
   char_isalpha ucd_excerpt 0x416 \<and> safe_char ucd_excerpt 0x416 = ustr ''?'' \<and>
   isspace 0x2003 \<and> safe_char ucd_excerpt 0x2003 = ustr '' '' \<and>
   \<not> isspace 0x1F600 \<and> safe_char ucd_excerpt 0x1F600 = []"
  using fallback_pass_per_character [of ucd_excerpt "[]" "0xE9" "0x85" "0x416" "0x2003" "0x1F600"]
  by (simp add: char_class_defs ucd_excerpt_def)

section \<open>Properties of the prompt builder\<close>

lemma and_then_Inr [simp]: "and_then (Inr v) f = f v"
  by (simp add: and_then_def)

lemma and_then_Inl [simp]: "and_then (Inl e) f = Inl e"
  by (simp add: and_then_def)

lemma getitem_Some [simp]: "d k = Some v \<Longrightarrow> getitem d k = Inr v"
  by (simp add: getitem_def)

lemma getitem_None [simp]: "d k = None \<Longrightarrow> getitem d k = Inl (KeyError (StrKey k))"
  by (simp add: getitem_def)

lemma create_resume_prompt_eq:
  assumes "d ''name'' = Some n" "d ''role'' = Some r" "d ''phone'' = Some p"
    "d ''email'' = Some e" "d ''skills'' = Some sk" "d ''experience'' = Some ex"
    "d ''education'' = Some ed"
  shows "create_resume_prompt d style =
     Inr (prompt_intro style
          @ base_info_text n r p e (get_default d ''location'' (ustr ''Not specified'')) sk ex ed
              (get_default d ''certifications'' (ustr ''None listed''))
          @ prompt_requirements style)"
  using assms
  by (simp add: create_resume_prompt_def base_info_def prompt_intro_def prompt_requirements_def)

text \<open>The prompt depends on the nine keys it reads and on nothing else.\<close>

lemma create_resume_prompt_cong:
  assumes "\<forall>k \<in> set prompt_fields. d' k = d k"
  shows "create_resume_prompt d' style = create_resume_prompt d style"
proof -
  from assms have "getitem d' k = getitem d k" "get_default d' k v = get_default d k v"
    if "k \<in> set prompt_fields" for k v
    using that by (simp_all add: getitem_def get_default_def)
  then show ?thesis
    by (simp add: create_resume_prompt_def base_info_def prompt_fields_def)
qed

text \<open>The builder raises for the first subscripted key that is missing.\<close>

lemma create_resume_prompt_first_missing:
  assumes "find (\<lambda>f. d f = None)
             [''name'', ''role'', ''phone'', ''email'', ''skills'', ''experience'', ''education'']
           = Some k"
  shows "create_resume_prompt d style = Inl (KeyError (StrKey k))"
proof -
  have "base_info d = Inl (KeyError (StrKey k))"
    using assms by (auto simp: base_info_def split: if_splits)
  then show ?thesis
    by (simp add: create_resume_prompt_def)
qed

lemma str_in_skip: "str_in x h \<Longrightarrow> str_in x (z @ h)"
  unfolding str_in_def sublist_def by (metis append.assoc)

lemma str_in_line: "str_in (a @ b @ c) (a @ b @ c @ rest)"
  unfolding str_in_def by (metis sublist_append_rightI append.assoc)

lemma str_in_label: "str_in (a @ b) (a @ b @ rest)"
  unfolding str_in_def by (metis sublist_append_rightI append.assoc)

lemma str_in_value: "str_in b (b @ rest)"
  unfolding str_in_def by (rule sublist_append_rightI)

lemma base_info_lines:
  fixes i q n r p e l sk ex ed c :: ustring
  defines "P \<equiv> i @ base_info_text n r p e l sk ex ed c @ q"
  shows "str_in (ustr ''Name: '' @ n @ [10]) P"
    and "str_in (ustr ''Role: '' @ r @ [10]) P"
    and "str_in (ustr ''Phone: '' @ p @ [10]) P"
    and "str_in (ustr ''Email: '' @ e @ [10]) P"
    and "str_in (ustr ''Location: '' @ l @ [10]) P"
    and "str_in (ustr ''Skills: '' @ sk @ [10]) P"
    and "str_in (ustr ''Experience: '' @ ex @ [10]) P"
    and "str_in (ustr ''Education: '' @ ed @ [10]) P"
    and "str_in (ustr ''Certifications: '' @ c @ [10]) P"
  unfolding P_def base_info_text_def append_assoc
  by (rule str_in_line | rule str_in_skip)+

lemma base_info_values:
  fixes i q n r p e l sk ex ed c :: ustring
  defines "P \<equiv> i @ base_info_text n r p e l sk ex ed c @ q"
  shows "str_in n P" and "str_in r P" and "str_in p P" and "str_in e P"
    and "str_in sk P" and "str_in ex P" and "str_in ed P"
    and "str_in (ustr ''Name: '' @ n) P" and "str_in (ustr ''Skills: '' @ sk) P"
  unfolding P_def base_info_text_def append_assoc
  by (rule str_in_label | rule str_in_value | rule str_in_skip)+

lemma jane_doe_prompt:
  "create_resume_prompt jane_doe (ustr ''professional'') =
     Inr (professional_intro
          @ base_info_text (ustr ''Jane Doe'') (ustr ''Engineer'') (ustr ''555-0100'')
              (ustr ''jane@ex.com'') (ustr ''Not specified'') (ustr ''Go'') (ustr ''X'') (ustr ''Y'')
              (ustr ''None listed'')
          @ professional_requirements)"
  by (simp add: create_resume_prompt_def base_info_def jane_doe_def get_default_def)

lemma jane_with_links_prompt:
  "create_resume_prompt jane_with_links style = create_resume_prompt jane_doe style"
  by (rule create_resume_prompt_cong) (simp add: prompt_fields_def jane_with_links_def)

text \<open>
  Claim C4, as stated, fails: the prompt has no line for the LinkedIn and the
  GitHub field. For the profile of the end-to-end scenario with both links
  set, neither link occurs anywhere in the prompt.
\<close>

theorem prompt_omits_profile_links:
  "jane_with_links ''linkedin'' = Some (ustr ''https://linkedin.com/in/jdoe'') \<and>
   jane_with_links ''github'' = Some (ustr ''github.com/jdoe'') \<and>
   \<not> isl (create_resume_prompt jane_with_links (ustr ''professional'')) \<and>
   \<not> str_in (ustr ''linkedin.com/in/jdoe'')
         (projr (create_resume_prompt jane_with_links (ustr ''professional''))) \<and>
   \<not> str_in (ustr ''github.com/jdoe'')
         (projr (create_resume_prompt jane_with_links (ustr ''professional'')))"
proof -
  have links: "jane_with_links ''linkedin'' = Some (ustr ''https://linkedin.com/in/jdoe'')"
    "jane_with_links ''github'' = Some (ustr ''github.com/jdoe'')"
    by (simp_all add: jane_with_links_def)
  have prompt: "create_resume_prompt jane_with_links (ustr ''professional'') =
     Inr (professional_intro
          @ base_info_text (ustr ''Jane Doe'') (ustr ''Engineer'') (ustr ''555-0100'')
              (ustr ''jane@ex.com'') (ustr ''Not specified'') (ustr ''Go'') (ustr ''X'') (ustr ''Y'')
              (ustr ''None listed'')
          @ professional_requirements)"
    by (simp only: jane_with_links_prompt jane_doe_prompt)
  have "\<not> str_in (ustr ''linkedin.com/in/jdoe'')
         (professional_intro
          @ base_info_text (ustr ''Jane Doe'') (ustr ''Engineer'') (ustr ''555-0100'')
              (ustr ''jane@ex.com'') (ustr ''Not specified'') (ustr ''Go'') (ustr ''X'') (ustr ''Y'')
              (ustr ''None listed'')
          @ professional_requirements)"
    by (simp add: professional_intro_def professional_requirements_def base_info_text_def
        str_in_def ustr_def sublist_Cons_right)
  moreover have "\<not> str_in (ustr ''github.com/jdoe'')
         (professional_intro
          @ base_info_text (ustr ''Jane Doe'') (ustr ''Engineer'') (ustr ''555-0100'')
              (ustr ''jane@ex.com'') (ustr ''Not specified'') (ustr ''Go'') (ustr ''X'') (ustr ''Y'')
              (ustr ''None listed'')
          @ professional_requirements)"
    by (simp add: professional_intro_def professional_requirements_def base_info_text_def
        str_in_def ustr_def sublist_Cons_right)
  ultimately show ?thesis
    using links by (simp add: prompt)
qed

text \<open>
  Claim C4, amended. For every profile that has the seven fields the builder
  subscripts (name, role, phone, email, skills, experience, education) and for
  every style, the prompt is the style's opening sentence, then one
  \<open>label: value\<close> line for each of name, role, phone, email, location, skills,
  experience, education and certifications, then the style's instruction
  block. Location and certifications get the placeholders "Not specified" and
  "None listed" when their key is absent. There is no line for linkedin or
  github: the prompt is the same whatever they are. A profile that lacks one of
  the seven subscripted fields raises \<open>KeyError\<close> instead: for the field
  removed from such a profile, and in general, for any profile, for the first
  missing field in the order in which the builder reads them.
\<close>

theorem prompt_renders_nine_fields:
  assumes "d ''name'' = Some n" "d ''role'' = Some r" "d ''phone'' = Some p"
    "d ''email'' = Some e" "d ''skills'' = Some sk" "d ''experience'' = Some ex"
    "d ''education'' = Some ed"
  shows "\<exists>P l c.
     create_resume_prompt d style =
       Inr P \<and> P = prompt_intro style @ base_info_text n r p e l sk ex ed c @ prompt_requirements style \<and>
     l = (case d ''location'' of None \<Rightarrow> ustr ''Not specified'' | Some v \<Rightarrow> v) \<and>
     c = (case d ''certifications'' of None \<Rightarrow> ustr ''None listed'' | Some v \<Rightarrow> v) \<and>
     str_in (ustr ''Name: '' @ n @ [10]) P \<and>
     str_in (ustr ''Role: '' @ r @ [10]) P \<and>
     str_in (ustr ''Phone: '' @ p @ [10]) P \<and>
     str_in (ustr ''Email: '' @ e @ [10]) P \<and>
     str_in (ustr ''Location: '' @ l @ [10]) P \<and>
     str_in (ustr ''Skills: '' @ sk @ [10]) P \<and>
     str_in (ustr ''Experience: '' @ ex @ [10]) P \<and>
     str_in (ustr ''Education: '' @ ed @ [10]) P \<and>
     str_in (ustr ''Certifications: '' @ c @ [10]) P \<and>
     create_resume_prompt (d(''linkedin'' := x, ''github'' := y)) style = Inr P \<and>
     (k \<in> set [''name'', ''role'', ''phone'', ''email'', ''skills'', ''experience'', ''education'']
        \<longrightarrow> create_resume_prompt (d(k := None)) style = Inl (KeyError (StrKey k))) \<and>
     (find (\<lambda>f. d' f = None)
        [''name'', ''role'', ''phone'', ''email'', ''skills'', ''experience'', ''education'']
        = Some k'
        \<longrightarrow> create_resume_prompt d' style = Inl (KeyError (StrKey k')))"
proof -
  let ?l = "get_default d ''location'' (ustr ''Not specified'')"
  let ?c = "get_default d ''certifications'' (ustr ''None listed'')"
  let ?P = "prompt_intro style @ base_info_text n r p e ?l sk ex ed ?c @ prompt_requirements style"
  have P: "create_resume_prompt d style = Inr ?P"
    using assms by (rule create_resume_prompt_eq)
  have "create_resume_prompt (d(''linkedin'' := x, ''github'' := y)) style
          = create_resume_prompt d style"
    by (rule create_resume_prompt_cong) (simp add: prompt_fields_def)
  moreover have "k \<in> set [''name'', ''role'', ''phone'', ''email'', ''skills'', ''experience'', ''education'']
        \<longrightarrow> create_resume_prompt (d(k := None)) style = Inl (KeyError (StrKey k))"
    using assms
    by (auto intro!: create_resume_prompt_first_missing)
  moreover have "find (\<lambda>f. d' f = None)
        [''name'', ''role'', ''phone'', ''email'', ''skills'', ''experience'', ''education'']
        = Some k'
        \<longrightarrow> create_resume_prompt d' style = Inl (KeyError (StrKey k'))"
    by (simp add: create_resume_prompt_first_missing)
  ultimately show ?thesis
    unfolding P
    by (intro exI [of _ ?P] exI [of _ ?l] exI [of _ ?c] conjI refl base_info_lines)
       (simp_all add: get_default_def)
qed

text \<open>
  The theorem at the profile of the end-to-end scenario, which has neither a
  location nor certifications, with two profile links added.
\<close>

theorem prompt_renders_nine_fields_witness:
  "jane_doe ''name'' = Some (ustr ''Jane Doe'') \<and> jane_doe ''location'' = None \<and>
   str_in (ustr ''Name: '' @ ustr ''Jane Doe'' @ [10])
     (projr (create_resume_prompt jane_doe (ustr ''professional''))) \<and>
   str_in (ustr ''Location: '' @ ustr ''Not specified'' @ [10])
     (projr (create_resume_prompt jane_doe (ustr ''professional''))) \<and>
   str_in (ustr ''Certifications: '' @ ustr ''None listed'' @ [10])
     (projr (create_resume_prompt jane_doe (ustr ''professional''))) \<and>
   create_resume_prompt
     (jane_doe(''linkedin'' := Some (ustr ''not a url''), ''github'' := Some (ustr ''x y z'')))
     (ustr ''professional'') = create_resume_prompt jane_doe (ustr ''professional'') \<and>
   create_resume_prompt (jane_doe(''skills'' := None)) (ustr ''professional'')
     = Inl (KeyError (StrKey ''skills'')) \<and>
   create_resume_prompt [''name'' \<mapsto> ustr ''Jane Doe'', ''skills'' \<mapsto> ustr ''Go'']
     (ustr ''professional'') = Inl (KeyError (StrKey ''role''))"
  using prompt_renders_nine_fields
          [where d = jane_doe and n = "ustr ''Jane Doe''" and r = "ustr ''Engineer''"
             and p = "ustr ''555-0100''" and e = "ustr ''jane@ex.com''" and sk = "ustr ''Go''"
             and ex = "ustr ''X''" and ed = "ustr ''Y''" and style = "ustr ''professional''"
             and x = "Some (ustr ''not a url'')" and y = "Some (ustr ''x y z'')"
             and k = "''skills''"
             and d' = "[''name'' \<mapsto> ustr ''Jane Doe'', ''skills'' \<mapsto> ustr ''Go'']"
             and k' = "''role''"]
  by (auto simp: jane_doe_def)

text \<open>
  Claim C9. The prompt builder is a function of the profile and the style: it
  reads nothing else, and two profiles that agree on the nine keys it reads
  give the same prompt. For every style, the prompt contains the value of each
  of the seven required fields verbatim, and the two label lines of the
  scenario. For the profile of the end-to-end scenario and the style
  professional it contains "Name: Jane Doe" and "Skills: Go".
\<close>

theorem prompt_deterministic_and_verbatim:
  assumes "d ''name'' = Some n" "d ''role'' = Some r" "d ''phone'' = Some p"
    "d ''email'' = Some e" "d ''skills'' = Some sk" "d ''experience'' = Some ex"
    "d ''education'' = Some ed"
  shows "(\<exists>P. create_resume_prompt d style = Inr P \<and>
            str_in n P \<and> str_in r P \<and> str_in p P \<and> str_in e P \<and>
            str_in sk P \<and> str_in ex P \<and> str_in ed P \<and>
            str_in (ustr ''Name: '' @ n) P \<and> str_in (ustr ''Skills: '' @ sk) P) \<and>
         ((\<forall>k \<in> set prompt_fields. d' k = d k)
            \<longrightarrow> create_resume_prompt d' style = create_resume_prompt d style) \<and>
         str_in (ustr ''Name: Jane Doe'')
           (projr (create_resume_prompt jane_doe (ustr ''professional''))) \<and>
         str_in (ustr ''Skills: Go'')
           (projr (create_resume_prompt jane_doe (ustr ''professional'')))"
proof -
  have "ustr ''Name: Jane Doe'' = ustr ''Name: '' @ ustr ''Jane Doe''"
    "ustr ''Skills: Go'' = ustr ''Skills: '' @ ustr ''Go''"
    by (simp_all add: ustr_def)
  then have jane: "str_in (ustr ''Name: Jane Doe'')
           (projr (create_resume_prompt jane_doe (ustr ''professional'')))"
    "str_in (ustr ''Skills: Go'')
           (projr (create_resume_prompt jane_doe (ustr ''professional'')))"
    by (simp_all only: jane_doe_prompt sum.sel base_info_values)
  have "\<exists>P. create_resume_prompt d style = Inr P \<and>
            str_in n P \<and> str_in r P \<and> str_in p P \<and> str_in e P \<and>
            str_in sk P \<and> str_in ex P \<and> str_in ed P \<and>
            str_in (ustr ''Name: '' @ n) P \<and> str_in (ustr ''Skills: '' @ sk) P"
    unfolding create_resume_prompt_eq [OF assms]
    by (intro conjI refl base_info_values
          exI [of _ "prompt_intro style
                     @ base_info_text n r p e (get_default d ''location'' (ustr ''Not specified''))
                         sk ex ed (get_default d ''certifications'' (ustr ''None listed''))
                     @ prompt_requirements style"])
  then show ?thesis
    using create_resume_prompt_cong [of d' d style] jane by blast
qed

text \<open>
  The theorem at the profile of the end-to-end scenario and, for the second
  profile, the same with two profile links.
\<close>

theorem prompt_deterministic_and_verbatim_witness:
  "jane_doe ''name'' = Some (ustr ''Jane Doe'') \<and> jane_doe ''skills'' = Some (ustr ''Go'') \<and>
   str_in (ustr ''Jane Doe'') (projr (create_resume_prompt jane_doe (ustr ''technical''))) \<and>
   str_in (ustr ''jane@ex.com'') (projr (create_resume_prompt jane_doe (ustr ''technical''))) \<and>
   list_all (\<lambda>k. jane_with_links k = jane_doe k) prompt_fields \<and>
   create_resume_prompt jane_with_links (ustr ''technical'')
     = create_resume_prompt jane_doe (ustr ''technical'')"
  using prompt_deterministic_and_verbatim
          [of jane_doe "ustr ''Jane Doe''" "ustr ''Engineer''" "ustr ''555-0100''"
              "ustr ''jane@ex.com''" "ustr ''Go''" "ustr ''X''" "ustr ''Y''"
              "ustr ''technical''" jane_with_links]
  by (auto simp: jane_doe_def jane_with_links_def prompt_fields_def)

section \<open>Properties of validation\<close>

lemmas regex_eval = re_match_def one_of_def is_ascii_alnum_def is_ascii_upper_def
  is_ascii_lower_def is_ascii_digit_def re_digit_def isspace_def ustr_def str_replace_def

lemma validate_email_examples:
  "\<not> validate_email (ustr ''not-an-email'')" "validate_email (ustr ''jane@ex.com'')"
  by (simp_all add: validate_email_def email_pattern_def regex_eval)

lemma validate_phone_examples:
  "\<not> validate_phone U (ustr ''abc'')" "validate_phone U (ustr ''+1 (555) 123-4567'')"
  "\<not> validate_phone U (ustr ''555-0100'')"
  by (simp_all add: validate_phone_def phone_pattern_def regex_eval)

lemma validate_linkedin_examples:
  "validate_linkedin []" "validate_linkedin (ustr ''https://linkedin.com/in/jdoe'')"
  "\<not> validate_linkedin (ustr ''not a url'')"
  by (simp_all add: validate_linkedin_def linkedin_pattern_def regex_eval)

lemma validate_github_examples:
  "validate_github []" "validate_github (ustr ''github.com/jdoe'')"
  "\<not> validate_github (ustr ''x y z'')"
  by (simp_all add: validate_github_def github_pattern_def regex_eval)

lemma missing_fields_Nil_iff:
  "missing_fields d = [] \<longleftrightarrow> (\<forall>f \<in> set required_fields. strip (get_default d f []) \<noteq> [])"
  by (simp add: missing_fields_def filter_empty_conv)

lemma strip_Nil [simp]: "strip [] = []"
  by (simp add: strip_def)

lemma required_field_present:
  assumes "missing_fields d = []" and "f \<in> set required_fields"
  shows "\<exists>v. d f = Some v"
proof (cases "d f")
  case None
  then have "strip (get_default d f []) = []" by (simp add: get_default_def)
  with assms show ?thesis by (simp add: missing_fields_Nil_iff)
qed simp

lemma validation_passes:
  assumes "\<forall>f \<in> set required_fields. strip (get_default d f []) \<noteq> []"
    and "d ''email'' = Some em" "validate_email em"
    and "d ''phone'' = Some ph" "validate_phone U ph"
  shows "validation U d = None"
  using assms by (simp add: validation_def missing_fields_Nil_iff)

lemma validation_rejects:
  assumes "(\<exists>f \<in> set required_fields. strip (get_default d f []) = []) \<or>
           (\<exists>em. d ''email'' = Some em \<and> \<not> validate_email em) \<or>
           (\<exists>ph. d ''phone'' = Some ph \<and> \<not> validate_phone U ph)"
  shows "\<exists>e. validation U d = Some e \<and> is_validation_error e"
proof (cases "missing_fields d = []")
  case False
  then show ?thesis by (simp add: validation_def)
next
  case True
  then obtain em ph where present: "d ''email'' = Some em" "d ''phone'' = Some ph"
    using required_field_present [of d "''email''"] required_field_present [of d "''phone''"]
    by (auto simp: required_fields_def)
  from True assms have "\<not> validate_email em \<or> \<not> validate_phone U ph"
    using present by (auto simp: missing_fields_Nil_iff)
  then show ?thesis
    using True present by (auto simp: validation_def)
qed

text \<open>Validation reads the seven required fields and no other key.\<close>

lemma validation_cong:
  assumes "\<forall>f \<in> set required_fields. d' f = d f"
  shows "validation U d' = validation U d"
proof -
  have fields: "missing_fields d' = missing_fields d"
    unfolding missing_fields_def using assms
    by (intro filter_cong refl) (simp add: get_default_def)
  from assms have items: "getitem d' ''email'' = getitem d ''email''"
    "getitem d' ''phone'' = getitem d ''phone''"
    by (simp_all add: required_fields_def getitem_def)
  show ?thesis
    unfolding validation_def fields items by (rule refl)
qed

lemma validation_ignores_links:
  "validation U (d(''linkedin'' := x, ''github'' := y)) = validation U d"
  by (rule validation_cong) (simp add: required_fields_def)

lemma generate_resume_ignores_links:
  "generate_resume U net secrets (d(''linkedin'' := x, ''github'' := y)) model_id style
     = generate_resume U net secrets d model_id style"
proof -
  have prompt: "create_resume_prompt (d(''linkedin'' := x, ''github'' := y)) style
          = create_resume_prompt d style"
    by (rule create_resume_prompt_cong) (simp add: prompt_fields_def)
  show ?thesis
    unfolding generate_resume_def validation_ignores_links prompt by (rule refl)
qed

lemma safe_api_call_not_validation_error:
  "safe_api_call r = Inl e \<Longrightarrow> \<not> is_validation_error e"
  by (auto simp: safe_api_call_def split: sum.splits exn.splits)

lemma safe_api_call_rewraps:
  "safe_api_call (Inl (ResumeGeneratorError m)) =
     Inl (ResumeGeneratorError (UnexpectedError (ResumeGeneratorError m)))"
  by (simp add: safe_api_call_def)

lemma generate_resume_after_validation:
  assumes "validation U d = None"
  shows "\<not> (\<exists>e. is_validation_error e \<and> snd (generate_resume U net secrets d model_id style) = Inl e)"
proof -
  from assms have mf: "missing_fields d = []"
    by (auto simp: validation_def split: if_splits)
  have "\<exists>v. d f = Some v" if "f \<in> set required_fields" for f
    using mf that by (rule required_field_present)
  then obtain n r p e sk ex ed where
    "d ''name'' = Some n" "d ''role'' = Some r" "d ''phone'' = Some p" "d ''email'' = Some e"
    "d ''skills'' = Some sk" "d ''experience'' = Some ex" "d ''education'' = Some ed"
    unfolding required_fields_def by (metis list.set_intros)
  then have "\<not> isl (create_resume_prompt d style)"
    by (simp add: create_resume_prompt_eq)
  then show ?thesis
    using assms
    by (auto simp: generate_resume_def get_iam_token_def
             dest: safe_api_call_not_validation_error split: sum.splits option.splits)
qed

lemma jane_valid_passes: "validation U jane_valid = None"
proof -
  have "\<forall>f \<in> set required_fields. strip (get_default jane_valid f []) \<noteq> []"
    by (simp add: required_fields_def jane_valid_def jane_doe_def get_default_def strip_def
        isspace_def ustr_def)
  moreover have "jane_valid ''email'' = Some (ustr ''jane@ex.com'')"
    "jane_valid ''phone'' = Some (ustr ''+1 (555) 123-4567'')"
    by (simp_all add: jane_valid_def jane_doe_def)
  ultimately show ?thesis
    using validate_email_examples(2) validate_phone_examples(2)
    by (intro validation_passes [of jane_valid "ustr ''jane@ex.com''" "ustr ''+1 (555) 123-4567''"])
qed

text \<open>
  Claim C6. Whenever a required field is empty after trimming, or the email
  fails its pattern, or the phone fails its pattern, \<open>generate_resume\<close> raises
  one of the three validation errors and its trace of network calls is empty.
  "not-an-email" fails the email pattern and "abc" the phone pattern, and the
  empty name is empty after trimming. A valid profile stays valid with an empty
  LinkedIn field and with the LinkedIn field "https://linkedin.com/in/jdoe",
  which are also both accepted by \<open>validate_linkedin\<close>.
\<close>

theorem validation_rejects_before_any_call:
  "((\<exists>f \<in> set required_fields. strip (get_default d f []) = []) \<or>
    (\<exists>em. d ''email'' = Some em \<and> \<not> validate_email em) \<or>
    (\<exists>ph. d ''phone'' = Some ph \<and> \<not> validate_phone U ph)
      \<longrightarrow> (\<exists>e. is_validation_error e \<and>
                generate_resume U net secrets d model_id style = ([], Inl e))) \<and>
   required_fields =
     [''name'', ''role'', ''skills'', ''experience'', ''education'', ''phone'', ''email''] \<and>
   strip [] = [] \<and>
   \<not> validate_email (ustr ''not-an-email'') \<and>
   \<not> validate_phone U (ustr ''abc'') \<and>
   validate_linkedin [] \<and>
   validate_linkedin (ustr ''https://linkedin.com/in/jdoe'') \<and>
   validation U (jane_valid(''linkedin'' \<mapsto> [])) = None \<and>
   validation U (jane_valid(''linkedin'' \<mapsto> ustr ''https://linkedin.com/in/jdoe'')) = None"
proof -
  have "\<exists>e. is_validation_error e \<and> generate_resume U net secrets d model_id style = ([], Inl e)"
    if "(\<exists>f \<in> set required_fields. strip (get_default d f []) = []) \<or>
        (\<exists>em. d ''email'' = Some em \<and> \<not> validate_email em) \<or>
        (\<exists>ph. d ''phone'' = Some ph \<and> \<not> validate_phone U ph)"
    using validation_rejects [OF that] by (auto simp: generate_resume_def)
  moreover have "validation U (jane_valid(''linkedin'' \<mapsto> l)) = None" for l
    using validation_cong [of "jane_valid(''linkedin'' \<mapsto> l)" jane_valid U]
    by (simp add: jane_valid_passes required_fields_def)
  ultimately show ?thesis
    by (simp add: required_fields_def validate_email_examples validate_phone_examples
        validate_linkedin_examples)
qed

text \<open>
  The theorem at the valid profile with the email "not-an-email", with a
  network whose endpoints would both answer with success.
\<close>

theorem validation_rejects_before_any_call_witness:
  "(jane_valid(''email'' \<mapsto> ustr ''not-an-email'')) ''email'' = Some (ustr ''not-an-email'') \<and>
   \<not> validate_email (ustr ''not-an-email'') \<and>
   generate_resume ucd_excerpt
     (sample_network (Inr token_response) (Inr (results_response (JArr []))))
     sample_secrets (jane_valid(''email'' \<mapsto> ustr ''not-an-email''))
     (ustr ''ibm/granite-13b-instruct-v2'') (ustr ''professional'')
   = ([], Inl (ResumeGeneratorError InvalidEmailFormat))"
proof -
  let ?d = "jane_valid(''email'' \<mapsto> ustr ''not-an-email'')"
  have email: "?d ''email'' = Some (ustr ''not-an-email'')" by simp
  have "missing_fields ?d = []"
    by (simp add: missing_fields_def required_fields_def jane_valid_def jane_doe_def
        get_default_def strip_def isspace_def ustr_def)
  then have "validation ucd_excerpt ?d = Some (ResumeGeneratorError InvalidEmailFormat)"
    using validate_email_examples(1) by (simp add: validation_def getitem_def)
  then show ?thesis
    using validation_rejects_before_any_call
            [of "?d" ucd_excerpt
                "sample_network (Inr token_response) (Inr (results_response (JArr [])))"
                sample_secrets "ustr ''ibm/granite-13b-instruct-v2''" "ustr ''professional''"]
          email validate_email_examples(1)
    by (auto simp: generate_resume_def)
qed

lemma str_in_join:
  "p \<in> set ps \<Longrightarrow> str_in p (join sep ps)"
proof (induction sep ps rule: join.induct)
  case (3 sep x y ys)
  show ?case
  proof (cases "p = x")
    case True
    then show ?thesis by (simp add: str_in_value)
  next
    case False
    with 3 have "str_in p (join sep (y # ys))" by simp
    then show ?thesis by (simp add: str_in_skip)
  qed
qed (simp_all add: str_in_def)

lemma page_header_social:
  assumes "d ''name'' = Some n" and "p \<in> set (social_parts U d)"
  shows "\<exists>hdr t. page_header U d = Inr hdr \<and> Cell 0 6 t 0 1 ''C'' \<in> set hdr \<and> str_in p t"
proof -
  from assms(2) have "social_parts U d \<noteq> []" by auto
  with assms(1) have "\<exists>hdr. page_header U d = Inr hdr \<and>
      Cell 0 6 (join (ustr '' | '') (social_parts U d)) 0 1 ''C'' \<in> set hdr"
    by (simp add: page_header_def)
  with str_in_join [OF assms(2)] show ?thesis by blast
qed

text \<open>The loop over the lines only ever appends to the document.\<close>

lemma format_line_ops: "prefix (ops st) (ops (format_line U font_size st line))"
  by (simp add: format_line_def)

lemma body_step_ops:
  assumes "body_step U d font_size st raw = Inr st'"
  shows "prefix (ops st) (ops st')"
proof -
  have "prefix (ops st) (ops (format_line U font_size (st\<lparr>skip_header := False\<rparr>) line))" for line
    using format_line_ops [of "st\<lparr>skip_header := False\<rparr>" U font_size line] by simp
  with assms show ?thesis
    by (auto simp: body_step_def Let_def format_line_ops split: if_splits sum.splits)
qed

lemma body_loop_ops:
  "body_loop U d font_size st ls = Inr st' \<Longrightarrow> prefix (ops st) (ops st')"
proof (induction ls arbitrary: st)
  case (Cons l ls)
  then obtain st1 where step: "body_step U d font_size st l = Inr st1"
    and rest: "body_loop U d font_size st1 ls = Inr st'"
    by (auto split: sum.splits)
  from body_step_ops [OF step] Cons.IH [OF rest] show ?case
    by (rule prefix_order.trans)
qed simp

lemma export_as_pdf_header:
  assumes "export_as_pdf U generated d font_family font_size = Inr st"
    and "page_header U d = Inr hdr"
  shows "set hdr \<subseteq> set (ops st)"
proof -
  from assms have "prefix ([AddPage] @ hdr @ [SetMargins 20 20 20]) (ops st)"
    using body_loop_ops
      [of U d font_size
          "\<lparr>skip_header = True, current_section = None,
            ops = [AddPage] @ hdr @ [SetMargins 20 20 20]\<rparr>"
          "split_on 10 (clean_text_for_pdf U generated)" st]
    by (simp add: export_as_pdf_def)
  then obtain zs where "ops st = ([AddPage] @ hdr @ [SetMargins 20 20 20]) @ zs"
    unfolding prefix_def by blast
  then show ?thesis
    by auto
qed

lemma jane_valid_prompt:
  "create_resume_prompt (jane_valid(''linkedin'' \<mapsto> l)) (ustr ''professional'') =
     Inr (professional_intro
          @ base_info_text (ustr ''Jane Doe'') (ustr ''Engineer'') (ustr ''+1 (555) 123-4567'')
              (ustr ''jane@ex.com'') (ustr ''Not specified'') (ustr ''Go'') (ustr ''X'') (ustr ''Y'')
              (ustr ''None listed'')
          @ professional_requirements)"
  by (simp add: create_resume_prompt_def base_info_def jane_valid_def jane_doe_def get_default_def)

text \<open>
  Claim C10, as stated, fails in its last part: a malformed profile link does
  not flow into the prompt. The profile below passes validation although its
  LinkedIn field "not a url" fails \<open>validate_linkedin\<close>, and the prompt built
  from it does not contain "not a url".
\<close>

theorem malformed_link_absent_from_prompt:
  "\<not> validate_linkedin (ustr ''not a url'') \<and>
   validation ucd_excerpt (jane_valid(''linkedin'' \<mapsto> ustr ''not a url'')) = None \<and>
   \<not> isl (create_resume_prompt (jane_valid(''linkedin'' \<mapsto> ustr ''not a url''))
            (ustr ''professional'')) \<and>
   \<not> str_in (ustr ''not a url'')
         (projr (create_resume_prompt (jane_valid(''linkedin'' \<mapsto> ustr ''not a url''))
                   (ustr ''professional'')))"
proof -
  have "validation ucd_excerpt (jane_valid(''linkedin'' \<mapsto> ustr ''not a url'')) = None"
    using validation_cong [of "jane_valid(''linkedin'' \<mapsto> ustr ''not a url'')" jane_valid ucd_excerpt]
    by (simp add: jane_valid_passes required_fields_def)
  moreover have "\<not> str_in (ustr ''not a url'')
         (professional_intro
          @ base_info_text (ustr ''Jane Doe'') (ustr ''Engineer'') (ustr ''+1 (555) 123-4567'')
              (ustr ''jane@ex.com'') (ustr ''Not specified'') (ustr ''Go'') (ustr ''X'') (ustr ''Y'')
              (ustr ''None listed'')
          @ professional_requirements)"
    by (simp add: professional_intro_def professional_requirements_def base_info_text_def
        str_in_def ustr_def sublist_Cons_right)
  ultimately show ?thesis
    by (simp add: jane_valid_prompt validate_linkedin_examples)
qed

text \<open>
  Claim C10, amended. For every profile whose seven required fields are
  non-blank after trimming and whose email and phone pass their patterns,
  whatever the LinkedIn and GitHub fields are set to (or removed): validation
  passes, \<open>generate_resume\<close> raises no validation error, and neither the prompt
  nor the result and the network calls of \<open>generate_resume\<close> depend on the two
  fields. A non-empty LinkedIn or GitHub value reaches the rendered document
  instead: sanitized but otherwise unchecked, after its label, in the line of
  profile links of the page header of every document \<open>export_as_pdf\<close> returns.
\<close>

theorem profile_links_never_validated:
  assumes "\<forall>f \<in> set required_fields. strip (get_default d f []) \<noteq> []"
    and "d ''email'' = Some em" and "validate_email em"
    and "d ''phone'' = Some ph" and "validate_phone U ph"
  shows "validation U (d(''linkedin'' := x, ''github'' := y)) = None \<and>
         \<not> (\<exists>e. is_validation_error e \<and>
                snd (generate_resume U net secrets (d(''linkedin'' := x, ''github'' := y))
                       model_id style) = Inl e) \<and>
         create_resume_prompt (d(''linkedin'' := x, ''github'' := y)) style
           = create_resume_prompt d style \<and>
         generate_resume U net secrets (d(''linkedin'' := x, ''github'' := y)) model_id style
           = generate_resume U net secrets d model_id style \<and>
         (l \<noteq> [] \<and>
          export_as_pdf U generated (d(''linkedin'' \<mapsto> l, ''github'' := y)) font_family font_size
            = Inr st
          \<longrightarrow> (\<exists>t. Cell 0 6 t 0 1 ''C'' \<in> set (ops st) \<and>
                   str_in (ustr ''LinkedIn: '' @ clean_text_for_pdf U l) t)) \<and>
         (g \<noteq> [] \<and>
          export_as_pdf U generated (d(''linkedin'' := x, ''github'' \<mapsto> g)) font_family font_size
            = Inr st
          \<longrightarrow> (\<exists>t. Cell 0 6 t 0 1 ''C'' \<in> set (ops st) \<and>
                   str_in (ustr ''GitHub: '' @ clean_text_for_pdf U g) t))"
proof -
  let ?d = "d(''linkedin'' := x, ''github'' := y)"
  have valid: "validation U ?d = None"
    using assms by (simp add: validation_ignores_links validation_passes)
  have prompt: "create_resume_prompt ?d style = create_resume_prompt d style"
    by (rule create_resume_prompt_cong) (simp add: prompt_fields_def)
  from assms(1) have "strip (get_default d ''name'' []) \<noteq> []"
    by (simp add: required_fields_def)
  then obtain n where name: "d ''name'' = Some n"
    by (cases "d ''name''") (simp_all add: get_default_def)
  have linkedin: "\<exists>t. Cell 0 6 t 0 1 ''C'' \<in> set (ops st) \<and>
                   str_in (ustr ''LinkedIn: '' @ clean_text_for_pdf U l) t"
    if "l \<noteq> []"
      and "export_as_pdf U generated (d(''linkedin'' \<mapsto> l, ''github'' := y)) font_family font_size
             = Inr st"
  proof -
    let ?e = "d(''linkedin'' \<mapsto> l, ''github'' := y)"
    have "?e ''name'' = Some n" using name by simp
    moreover have "ustr ''LinkedIn: '' @ clean_text_for_pdf U l \<in> set (social_parts U ?e)"
      using that(1) by (simp add: social_parts_def get_default_def)
    ultimately obtain hdr t where "page_header U ?e = Inr hdr" "Cell 0 6 t 0 1 ''C'' \<in> set hdr"
      "str_in (ustr ''LinkedIn: '' @ clean_text_for_pdf U l) t"
      using page_header_social by blast
    with export_as_pdf_header [OF that(2)] show ?thesis by blast
  qed
  have github: "\<exists>t. Cell 0 6 t 0 1 ''C'' \<in> set (ops st) \<and>
                   str_in (ustr ''GitHub: '' @ clean_text_for_pdf U g) t"
    if "g \<noteq> []"
      and "export_as_pdf U generated (d(''linkedin'' := x, ''github'' \<mapsto> g)) font_family font_size
             = Inr st"
  proof -
    let ?e = "d(''linkedin'' := x, ''github'' \<mapsto> g)"
    have "?e ''name'' = Some n" using name by simp
    moreover have "ustr ''GitHub: '' @ clean_text_for_pdf U g \<in> set (social_parts U ?e)"
      using that(1) by (simp add: social_parts_def get_default_def)
    ultimately obtain hdr t where "page_header U ?e = Inr hdr" "Cell 0 6 t 0 1 ''C'' \<in> set hdr"
      "str_in (ustr ''GitHub: '' @ clean_text_for_pdf U g) t"
      using page_header_social by blast
    with export_as_pdf_header [OF that(2)] show ?thesis by blast
  qed
  show ?thesis
    using valid prompt linkedin github
      generate_resume_after_validation [OF valid, of net secrets model_id style]
      generate_resume_ignores_links [of U net secrets d x y model_id style]
    by blast
qed

text \<open>The sanitizer leaves ASCII text as it is.\<close>

lemma clean_text_for_pdf_ascii:
  assumes "list_all (\<lambda>c. c < 128) s"
  shows "clean_text_for_pdf U s = s"
proof -
  have "fst ` set replacements \<inter> set s = {}"
    using assms by (auto simp: replacements_eq list_all_iff)
  then have "apply_replacements replacements s = s"
    by (rule apply_replacements_absent)
  moreover have "fallback_pass U s = s"
    using assms by (intro fallback_pass_fixed) (simp add: safe_char_def list_all_iff)
  ultimately show ?thesis
    by (simp add: clean_text_for_pdf_def)
qed

lemma jane_valid_header:
  "page_header U (jane_valid(''linkedin'' \<mapsto> ustr ''not a url'', ''github'' := None)) =
     Inr [SetFont ''Arial'' ''B'' 20, Cell 0 15 (ustr ''JANE DOE'') 0 1 ''C'',
          SetFont ''Arial'' [] 11, Cell 0 8 (ustr ''+1 (555) 123-4567 | jane@ex.com'') 0 1 ''C'',
          SetFont ''Arial'' [] 10, Cell 0 6 (ustr ''LinkedIn: not a url'') 0 1 ''C'', Ln 10]"
proof -
  have "upper U (ustr ''Jane Doe'') = ustr ''JANE DOE''"
    by (simp add: upper_def char_upper_def is_ascii_lower_def ustr_def)
  moreover have "clean_text_for_pdf U (ustr ''JANE DOE'') = ustr ''JANE DOE''"
    "clean_text_for_pdf U (ustr ''+1 (555) 123-4567'') = ustr ''+1 (555) 123-4567''"
    "clean_text_for_pdf U (ustr ''jane@ex.com'') = ustr ''jane@ex.com''"
    "clean_text_for_pdf U (ustr ''not a url'') = ustr ''not a url''"
    by (rule clean_text_for_pdf_ascii, simp add: ustr_def)+
  ultimately show ?thesis
    by (simp add: page_header_def contact_parts_def social_parts_def get_default_def
        jane_valid_def jane_doe_def)
       (simp add: ustr_def)
qed

text \<open>
  The theorem at the valid profile with the LinkedIn field "not a url" and no
  GitHub field: validation passes, and the document rendered from an empty
  text has the link in its header.
\<close>

theorem profile_links_never_validated_witness:
  "validation ucd_excerpt
     (jane_valid(''linkedin'' \<mapsto> ustr ''not a url'', ''github'' := None)) = None \<and>
   export_as_pdf ucd_excerpt []
     (jane_valid(''linkedin'' \<mapsto> ustr ''not a url'', ''github'' := None)) ''Arial'' 11 =
     Inr \<lparr>skip_header = True, current_section = None,
          ops = [AddPage,
                 SetFont ''Arial'' ''B'' 20, Cell 0 15 (ustr ''JANE DOE'') 0 1 ''C'',
                 SetFont ''Arial'' [] 11,
                 Cell 0 8 (ustr ''+1 (555) 123-4567 | jane@ex.com'') 0 1 ''C'',
                 SetFont ''Arial'' [] 10, Cell 0 6 (ustr ''LinkedIn: not a url'') 0 1 ''C'',
                 Ln 10, SetMargins 20 20 20, Ln 3]\<rparr> \<and>
   str_in (ustr ''LinkedIn: '' @ clean_text_for_pdf ucd_excerpt (ustr ''not a url''))
     (ustr ''LinkedIn: not a url'')"
proof -
  let ?d = "jane_valid(''linkedin'' \<mapsto> ustr ''not a url'', ''github'' := None)"
  have required: "\<forall>f \<in> set required_fields. strip (get_default jane_valid f []) \<noteq> []"
    by (simp add: required_fields_def jane_valid_def jane_doe_def get_default_def strip_def
        isspace_def ustr_def)
  have email: "jane_valid ''email'' = Some (ustr ''jane@ex.com'')"
    and phone: "jane_valid ''phone'' = Some (ustr ''+1 (555) 123-4567'')"
    by (simp_all add: jane_valid_def jane_doe_def)
  have "clean_text_for_pdf ucd_excerpt [] = []"
    by (rule clean_text_for_pdf_ascii) simp
  then have export: "export_as_pdf ucd_excerpt [] ?d ''Arial'' 11 =
     Inr \<lparr>skip_header = True, current_section = None,
          ops = [AddPage,
                 SetFont ''Arial'' ''B'' 20, Cell 0 15 (ustr ''JANE DOE'') 0 1 ''C'',
                 SetFont ''Arial'' [] 11,
                 Cell 0 8 (ustr ''+1 (555) 123-4567 | jane@ex.com'') 0 1 ''C'',
                 SetFont ''Arial'' [] 10, Cell 0 6 (ustr ''LinkedIn: not a url'') 0 1 ''C'',
                 Ln 10, SetMargins 20 20 20, Ln 3]\<rparr>"
    by (simp add: export_as_pdf_def jane_valid_header body_step_def)
  have "clean_text_for_pdf ucd_excerpt (ustr ''not a url'') = ustr ''not a url''"
    by (rule clean_text_for_pdf_ascii) (simp add: ustr_def)
  then have "str_in (ustr ''LinkedIn: '' @ clean_text_for_pdf ucd_excerpt (ustr ''not a url''))
     (ustr ''LinkedIn: not a url'')"
    by (simp add: str_in_def ustr_def)
  with export show ?thesis
    using profile_links_never_validated
      [OF required email validate_email_examples(2) phone validate_phone_examples(2),
       where x = "Some (ustr ''not a url'')" and y = None and l = "ustr ''not a url''"
         and generated = "[]" and font_family = "''Arial''" and font_size = 11]
    by simp
qed

section \<open>Properties of the generation client\<close>

text \<open>What the two inner functions raise for a response whose status is not 200.\<close>

lemma get_token_inner_status:
  "status_code resp \<noteq> 200 \<Longrightarrow>
   get_token_inner (Inr resp) =
     Inl (ResumeGeneratorError
           (if status_code resp = 400 then InvalidApiKeyFormat
            else if status_code resp = 401 then ApiKeyAuthenticationFailed
            else if status_code resp = 403 then ApiKeyAccessDenied
            else IamTokenError (status_code resp) (body_text resp)))"
  by (simp add: get_token_inner_def)

lemma generate_inner_status:
  "status_code resp \<noteq> 200 \<Longrightarrow>
   generate_inner (Inr resp) =
     Inl (ResumeGeneratorError
           (if status_code resp = 404 then ModelNotAvailable
            else if status_code resp = 403 then AccessDenied
            else if status_code resp = 429 then RateLimitExceeded
            else ApiError (status_code resp) (body_text resp)))"
  by (simp add: generate_inner_def)

lemma generate_inner_no_results:
  assumes "status_code resp = 200" and "body_json resp = Some (JObj kvs)"
    and "map_of kvs (ustr ''results'') = None \<or> map_of kvs (ustr ''results'') = Some (JArr [])"
  shows "generate_inner (Inr resp) = Inl (ResumeGeneratorError NoResponseFromModel)"
  using assms
  by (auto simp: generate_inner_def json_contains_def json_getitem_def json_truthy_def)

lemma generate_inner_blank_text:
  assumes "status_code resp = 200" and "body_json resp = Some (JObj kvs)"
    and "map_of kvs (ustr ''results'') = Some (JArr (JObj first # rest))"
    and "map_of first (ustr ''generated_text'') = None \<or>
         (\<exists>s. map_of first (ustr ''generated_text'') = Some (JStr s) \<and> strip s = [])"
  shows "generate_inner (Inr resp) = Inl (ResumeGeneratorError EmptyResponse)"
  using assms
  by (auto simp: generate_inner_def json_contains_def json_getitem_def json_truthy_def
      json_first_def json_get_def json_strip_def)

lemma generate_resume_failed_exchange:
  assumes "validation U d = None" and "create_resume_prompt d style = Inr prompt"
    and "secrets ''api_key'' = Some k" and "secrets ''project_id'' = Some p"
    and "get_token_inner (iam_endpoint net k) = Inl (ResumeGeneratorError m)"
  shows "generate_resume U net secrets d model_id style =
           ([IamTokenCall k],
            Inl (ResumeGeneratorError (UnexpectedError (ResumeGeneratorError m))))"
  using assms by (simp add: generate_resume_def get_iam_token_def safe_api_call_rewraps)

lemma generate_resume_failed_generation:
  assumes "validation U d = None" and "create_resume_prompt d style = Inr prompt"
    and "secrets ''api_key'' = Some k" and "secrets ''project_id'' = Some p"
    and "get_iam_token net k = Inr token"
    and "generate_inner (generation_endpoint net token model_id prompt p)
           = Inl (ResumeGeneratorError m)"
  shows "generate_resume U net secrets d model_id style =
           ([IamTokenCall k, GenerationCall token model_id prompt p],
            Inl (ResumeGeneratorError (UnexpectedError (ResumeGeneratorError m))))"
  using assms by (simp add: generate_resume_def safe_api_call_rewraps)

lemma sample_exchange:
  "get_iam_token (sample_network (Inr token_response) g) k = Inr (JStr (ustr ''token''))"
  by (simp add: get_iam_token_def safe_api_call_def get_token_inner_def sample_network_def
      token_response_def json_getitem_def)

text \<open>
  Claim C5. The two inner functions classify the status as the claim says, and
  a failed credential exchange is followed by no generation call. But each
  classified error is raised inside \<open>safe_api_call\<close>, whose last handler
  catches every \<open>Exception\<close>, \<open>ResumeGeneratorError\<close> included: what
  \<open>generate_resume\<close> raises is "Unexpected error: " followed by the classified
  message, for every status and for the empty result as well. So for a profile
  that passes validation and secrets that hold both keys:
\<close>

theorem classified_errors_reported_as_unexpected:
  assumes "validation U d = None" and "create_resume_prompt d style = Inr prompt"
    and "secrets ''api_key'' = Some k" and "secrets ''project_id'' = Some p"
  shows
    "(iam_endpoint net k = Inr resp \<and> status_code resp \<noteq> 200 \<longrightarrow>
        generate_resume U net secrets d model_id style =
          ([IamTokenCall k],
           Inl (ResumeGeneratorError (UnexpectedError (ResumeGeneratorError
             (if status_code resp = 400 then InvalidApiKeyFormat
              else if status_code resp = 401 then ApiKeyAuthenticationFailed
              else if status_code resp = 403 then ApiKeyAccessDenied
              else IamTokenError (status_code resp) (body_text resp))))))) \<and>
     (get_iam_token net k = Inr token \<and>
      generation_endpoint net token model_id prompt p = Inr resp \<and> status_code resp \<noteq> 200 \<longrightarrow>
        generate_resume U net secrets d model_id style =
          ([IamTokenCall k, GenerationCall token model_id prompt p],
           Inl (ResumeGeneratorError (UnexpectedError (ResumeGeneratorError
             (if status_code resp = 404 then ModelNotAvailable
              else if status_code resp = 403 then AccessDenied
              else if status_code resp = 429 then RateLimitExceeded
              else ApiError (status_code resp) (body_text resp))))))) \<and>
     (get_iam_token net k = Inr token \<and>
      generation_endpoint net token model_id prompt p = Inr resp \<and> status_code resp = 200 \<and>
      body_json resp = Some (JObj kvs) \<and>
      (map_of kvs (ustr ''results'') = None \<or> map_of kvs (ustr ''results'') = Some (JArr [])) \<longrightarrow>
        generate_resume U net secrets d model_id style =
          ([IamTokenCall k, GenerationCall token model_id prompt p],
           Inl (ResumeGeneratorError (UnexpectedError
                  (ResumeGeneratorError NoResponseFromModel))))) \<and>
     (get_iam_token net k = Inr token \<and>
      generation_endpoint net token model_id prompt p = Inr resp \<and> status_code resp = 200 \<and>
      body_json resp = Some (JObj kvs) \<and>
      map_of kvs (ustr ''results'') = Some (JArr (JObj first # rest)) \<and>
      (map_of first (ustr ''generated_text'') = None \<or>
       (\<exists>s. map_of first (ustr ''generated_text'') = Some (JStr s) \<and> strip s = [])) \<longrightarrow>
        generate_resume U net secrets d model_id style =
          ([IamTokenCall k, GenerationCall token model_id prompt p],
           Inl (ResumeGeneratorError (UnexpectedError (ResumeGeneratorError EmptyResponse)))))"
proof (intro conjI impI)
  assume "iam_endpoint net k = Inr resp \<and> status_code resp \<noteq> 200"
  then show "generate_resume U net secrets d model_id style =
          ([IamTokenCall k],
           Inl (ResumeGeneratorError (UnexpectedError (ResumeGeneratorError
             (if status_code resp = 400 then InvalidApiKeyFormat
              else if status_code resp = 401 then ApiKeyAuthenticationFailed
              else if status_code resp = 403 then ApiKeyAccessDenied
              else IamTokenError (status_code resp) (body_text resp))))))"
    using get_token_inner_status [of resp]
    by (intro generate_resume_failed_exchange [OF assms]) simp
next
  assume "get_iam_token net k = Inr token \<and>
      generation_endpoint net token model_id prompt p = Inr resp \<and> status_code resp \<noteq> 200"
  then show "generate_resume U net secrets d model_id style =
          ([IamTokenCall k, GenerationCall token model_id prompt p],
           Inl (ResumeGeneratorError (UnexpectedError (ResumeGeneratorError
             (if status_code resp = 404 then ModelNotAvailable
              else if status_code resp = 403 then AccessDenied
              else if status_code resp = 429 then RateLimitExceeded
              else ApiError (status_code resp) (body_text resp))))))"
    using generate_inner_status [of resp]
    by (intro generate_resume_failed_generation [OF assms]) simp_all
next
  assume "get_iam_token net k = Inr token \<and>
      generation_endpoint net token model_id prompt p = Inr resp \<and> status_code resp = 200 \<and>
      body_json resp = Some (JObj kvs) \<and>
      (map_of kvs (ustr ''results'') = None \<or> map_of kvs (ustr ''results'') = Some (JArr []))"
  then show "generate_resume U net secrets d model_id style =
          ([IamTokenCall k, GenerationCall token model_id prompt p],
           Inl (ResumeGeneratorError (UnexpectedError
                  (ResumeGeneratorError NoResponseFromModel))))"
    using generate_inner_no_results [of resp kvs]
    by (intro generate_resume_failed_generation [OF assms]) simp_all
next
  assume "get_iam_token net k = Inr token \<and>
      generation_endpoint net token model_id prompt p = Inr resp \<and> status_code resp = 200 \<and>
      body_json resp = Some (JObj kvs) \<and>
      map_of kvs (ustr ''results'') = Some (JArr (JObj first # rest)) \<and>
      (map_of first (ustr ''generated_text'') = None \<or>
       (\<exists>s. map_of first (ustr ''generated_text'') = Some (JStr s) \<and> strip s = []))"
  then show "generate_resume U net secrets d model_id style =
          ([IamTokenCall k, GenerationCall token model_id prompt p],
           Inl (ResumeGeneratorError (UnexpectedError (ResumeGeneratorError EmptyResponse))))"
    using generate_inner_blank_text [of resp kvs first rest]
    by (intro generate_resume_failed_generation [OF assms]) simp_all
qed

text \<open>
  The theorem at the valid profile, once with a credential exchange answered
  with status 401 and once with a generation request answered with status 429.
\<close>

theorem classified_errors_reported_as_unexpected_witness:
  "get_token_inner (Inr (status_response 401))
     = Inl (ResumeGeneratorError ApiKeyAuthenticationFailed) \<and>
   generate_resume ucd_excerpt
     (sample_network (Inr (status_response 401)) (Inr (results_response (JArr []))))
     sample_secrets jane_valid (ustr ''ibm/granite-13b-instruct-v2'') (ustr ''professional'')
     = ([IamTokenCall (JStr (ustr ''key''))],
        Inl (ResumeGeneratorError
              (UnexpectedError (ResumeGeneratorError ApiKeyAuthenticationFailed)))) \<and>
   generate_inner (Inr (status_response 429)) = Inl (ResumeGeneratorError RateLimitExceeded) \<and>
   snd (generate_resume ucd_excerpt
          (sample_network (Inr token_response) (Inr (status_response 429)))
          sample_secrets jane_valid (ustr ''ibm/granite-13b-instruct-v2'') (ustr ''professional''))
     = Inl (ResumeGeneratorError (UnexpectedError (ResumeGeneratorError RateLimitExceeded)))"
proof -
  obtain prompt where prompt:
    "create_resume_prompt jane_valid (ustr ''professional'') = Inr prompt"
    by (simp add: create_resume_prompt_def base_info_def jane_valid_def jane_doe_def)
  have secrets: "sample_secrets ''api_key'' = Some (JStr (ustr ''key''))"
    "sample_secrets ''project_id'' = Some (JStr (ustr ''project''))"
    by (simp_all add: sample_secrets_def)
  have valid: "validation ucd_excerpt jane_valid = None"
    by (rule jane_valid_passes)
  show ?thesis
    using classified_errors_reported_as_unexpected
        [where U = ucd_excerpt and d = jane_valid and style = "ustr ''professional''"
           and model_id = "ustr ''ibm/granite-13b-instruct-v2''"
           and net = "sample_network (Inr (status_response 401))
                        (Inr (results_response (JArr [])))"
           and resp = "status_response 401",
         OF valid prompt secrets]
      classified_errors_reported_as_unexpected
        [where U = ucd_excerpt and d = jane_valid and style = "ustr ''professional''"
           and model_id = "ustr ''ibm/granite-13b-instruct-v2''"
           and net = "sample_network (Inr token_response) (Inr (status_response 429))"
           and resp = "status_response 429" and token = "JStr (ustr ''token'')",
         OF valid prompt secrets]
    by (simp add: sample_network_def status_response_def token_response_def get_iam_token_def
        safe_api_call_def get_token_inner_def generate_inner_def json_getitem_def)
qed

section \<open>Properties of the renderer\<close>

lemmas line_eval = isupper_def char_islower_def char_isupper_def is_ascii_upper_def
  is_ascii_lower_def startswith_def str_in_def sublist_Cons_right strip_def isspace_def ustr_def

lemma startswith_marker:
  "startswith line (ustr ''- '') \<Longrightarrow> startswith line (ustr ''-'')"
  "startswith line (ustr ''* '') \<Longrightarrow> startswith line (ustr ''*'')"
  "startswith line (ustr ''+ '') \<Longrightarrow> \<not> startswith line (ustr ''-'')"
  "startswith line (ustr ''+ '') \<Longrightarrow> \<not> startswith line (ustr ''*'')"
  by (cases line; simp add: startswith_def ustr_def)+

lemma length_ustr: "length (ustr s) = length s"
  by (simp add: ustr_def)

lemma clean_marker: "clean_text_for_pdf U (ustr ''* '') = ustr ''* ''"
  by (rule clean_text_for_pdf_ascii) (simp add: ustr_def)

text \<open>
  Claim C7. After header-skip has ended a line is rendered by \<open>format_line\<close>.
  A line starting with "- " or "* " is a bullet: the glyph "* ", then the
  line without its first two characters, trimmed (the line itself when it is
  only two characters long). A line that is entirely upper-case, under 50
  characters and starts with neither "-" nor "*" is a section heading: the
  sanitized line in bold, a rule beneath it, and it becomes the current
  section. The test for a heading comes first and does not exclude "+": a line
  starting with "+ " is a bullet only if it is not entirely upper-case or is 50
  characters or longer, and a section heading otherwise.
\<close>

theorem format_line_classification:
  "(startswith line (ustr ''- '') \<or> startswith line (ustr ''* '') \<longrightarrow>
      format_line U font_size st line =
        st\<lparr>ops := ops st @
              [SetFont ''Arial'' [] font_size, Cell 8 6 (ustr ''* '') 0 0 ''L'',
               MultiCell 0 6
                 (clean_text_for_pdf U (if length line > 2 then strip (drop 2 line) else line))
                 0 ''L'',
               Ln 1]\<rparr>) \<and>
   (startswith line (ustr ''+ '') \<and> \<not> (isupper U line \<and> length line < 50) \<longrightarrow>
      format_line U font_size st line =
        st\<lparr>ops := ops st @
              [SetFont ''Arial'' [] font_size, Cell 8 6 (ustr ''* '') 0 0 ''L'',
               MultiCell 0 6
                 (clean_text_for_pdf U (if length line > 2 then strip (drop 2 line) else line))
                 0 ''L'',
               Ln 1]\<rparr>) \<and>
   (isupper U line \<and> length line < 50 \<and>
    \<not> startswith line (ustr ''-'') \<and> \<not> startswith line (ustr ''*'') \<longrightarrow>
      format_line U font_size st line =
        st\<lparr>ops := ops st @
              [Ln 5, SetFont ''Arial'' ''B'' 13, Cell 0 8 (clean_text_for_pdf U line) 0 1 ''L'',
               Rule, Ln 5],
           current_section := Some line\<rparr>) \<and>
   (startswith line (ustr ''+ '') \<and> isupper U line \<and> length line < 50 \<longrightarrow>
      format_line U font_size st line =
        st\<lparr>ops := ops st @
              [Ln 5, SetFont ''Arial'' ''B'' 13, Cell 0 8 (clean_text_for_pdf U line) 0 1 ''L'',
               Rule, Ln 5],
           current_section := Some line\<rparr>)"
proof (intro conjI impI)
  assume "startswith line (ustr ''- '') \<or> startswith line (ustr ''* '')"
  then show "format_line U font_size st line =
        st\<lparr>ops := ops st @
              [SetFont ''Arial'' [] font_size, Cell 8 6 (ustr ''* '') 0 0 ''L'',
               MultiCell 0 6
                 (clean_text_for_pdf U (if length line > 2 then strip (drop 2 line) else line))
                 0 ''L'',
               Ln 1]\<rparr>"
    using startswith_marker(1,2) [of line]
    by (auto simp: format_line_def safe_cell_def safe_multi_cell_def clean_marker)
next
  assume "startswith line (ustr ''+ '') \<and> \<not> (isupper U line \<and> length line < 50)"
  then show "format_line U font_size st line =
        st\<lparr>ops := ops st @
              [SetFont ''Arial'' [] font_size, Cell 8 6 (ustr ''* '') 0 0 ''L'',
               MultiCell 0 6
                 (clean_text_for_pdf U (if length line > 2 then strip (drop 2 line) else line))
                 0 ''L'',
               Ln 1]\<rparr>"
    by (auto simp: format_line_def safe_cell_def safe_multi_cell_def clean_marker)
next
  assume "isupper U line \<and> length line < 50 \<and>
    \<not> startswith line (ustr ''-'') \<and> \<not> startswith line (ustr ''*'')"
  then show "format_line U font_size st line =
        st\<lparr>ops := ops st @
              [Ln 5, SetFont ''Arial'' ''B'' 13, Cell 0 8 (clean_text_for_pdf U line) 0 1 ''L'',
               Rule, Ln 5],
           current_section := Some line\<rparr>"
    by (simp add: format_line_def section_header_def)
next
  assume "startswith line (ustr ''+ '') \<and> isupper U line \<and> length line < 50"
  then show "format_line U font_size st line =
        st\<lparr>ops := ops st @
              [Ln 5, SetFont ''Arial'' ''B'' 13, Cell 0 8 (clean_text_for_pdf U line) 0 1 ''L'',
               Rule, Ln 5],
           current_section := Some line\<rparr>"
    using startswith_marker(3,4) [of line]
    by (simp add: format_line_def section_header_def)
qed

text \<open>
  The theorem at the lines "- Built a thing", "+ Built a thing", "EXPERIENCE"
  and "+ AWS": two bullets with the text "Built a thing", and two section
  headings, "EXPERIENCE" and "+ AWS".
\<close>

theorem format_line_classification_witness:
  "format_line ucd_excerpt 11 \<lparr>skip_header = False, current_section = None, ops = []\<rparr>
     (ustr ''- Built a thing'') =
     \<lparr>skip_header = False, current_section = None,
      ops = [SetFont ''Arial'' [] 11, Cell 8 6 (ustr ''* '') 0 0 ''L'',
             MultiCell 0 6 (ustr ''Built a thing'') 0 ''L'', Ln 1]\<rparr> \<and>
   format_line ucd_excerpt 11 \<lparr>skip_header = False, current_section = None, ops = []\<rparr>
     (ustr ''+ Built a thing'') =
     \<lparr>skip_header = False, current_section = None,
      ops = [SetFont ''Arial'' [] 11, Cell 8 6 (ustr ''* '') 0 0 ''L'',
             MultiCell 0 6 (ustr ''Built a thing'') 0 ''L'', Ln 1]\<rparr> \<and>
   format_line ucd_excerpt 11 \<lparr>skip_header = False, current_section = None, ops = []\<rparr>
     (ustr ''EXPERIENCE'') =
     \<lparr>skip_header = False, current_section = Some (ustr ''EXPERIENCE''),
      ops = [Ln 5, SetFont ''Arial'' ''B'' 13, Cell 0 8 (ustr ''EXPERIENCE'') 0 1 ''L'',
             Rule, Ln 5]\<rparr> \<and>
   startswith (ustr ''+ AWS'') (ustr ''+ '') \<and>
   format_line ucd_excerpt 11 \<lparr>skip_header = False, current_section = None, ops = []\<rparr>
     (ustr ''+ AWS'') =
     \<lparr>skip_header = False, current_section = Some (ustr ''+ AWS''),
      ops = [Ln 5, SetFont ''Arial'' ''B'' 13, Cell 0 8 (ustr ''+ AWS'') 0 1 ''L'',
             Rule, Ln 5]\<rparr>"
proof -
  let ?st = "\<lparr>skip_header = False, current_section = None, ops = []\<rparr>"
  have clean: "clean_text_for_pdf ucd_excerpt (ustr ''Built a thing'') = ustr ''Built a thing''"
    "clean_text_for_pdf ucd_excerpt (ustr ''EXPERIENCE'') = ustr ''EXPERIENCE''"
    "clean_text_for_pdf ucd_excerpt (ustr ''+ AWS'') = ustr ''+ AWS''"
    by (rule clean_text_for_pdf_ascii, simp add: ustr_def)+
  have trimmed: "strip (drop 2 (ustr ''- Built a thing'')) = ustr ''Built a thing''"
    "strip (drop 2 (ustr ''+ Built a thing'')) = ustr ''Built a thing''"
    by (simp_all add: strip_def isspace_def ustr_def)
  have markers: "startswith (ustr ''- Built a thing'') (ustr ''- '')"
    "startswith (ustr ''+ Built a thing'') (ustr ''+ '')"
    "startswith (ustr ''+ AWS'') (ustr ''+ '')"
    "\<not> startswith (ustr ''EXPERIENCE'') (ustr ''-'')"
    "\<not> startswith (ustr ''EXPERIENCE'') (ustr ''*'')"
    by (simp_all add: startswith_def ustr_def)
  have caps: "\<not> isupper ucd_excerpt (ustr ''+ Built a thing'')"
    "isupper ucd_excerpt (ustr ''EXPERIENCE'')" "isupper ucd_excerpt (ustr ''+ AWS'')"
    by (simp_all add: line_eval)
  show ?thesis
    using format_line_classification
        [where line = "ustr ''- Built a thing''" and U = ucd_excerpt and font_size = 11 and st = "?st"]
      format_line_classification
        [where line = "ustr ''+ Built a thing''" and U = ucd_excerpt and font_size = 11 and st = "?st"]
      format_line_classification
        [where line = "ustr ''EXPERIENCE''" and U = ucd_excerpt and font_size = 11 and st = "?st"]
      format_line_classification
        [where line = "ustr ''+ AWS''" and U = ucd_excerpt and font_size = 11 and st = "?st"]
    by (simp add: clean trimmed markers caps length_ustr)
qed











end
